theory Spec2Isabelle
  imports Complex_Main
begin

section \<open>JavaScript numbers\<close>

text \<open>
  The renderer computes with IEEE doubles. This development reads every finite double as
  the real number it denotes and every arithmetic operation as the exact one, so rounding
  is not part of the model. A result that JavaScript reports as \<open>Infinity\<close> or
  \<open>NaN\<close> is written \<open>None\<close>: a division by zero is the only place where the
  projection code can leave the finite numbers.
\<close>

definition js_rem :: "real \<Rightarrow> real \<Rightarrow> real" where
  \<comment> \<open>The remainder operator \<open>a % b\<close> for \<open>b \<noteq> 0\<close>: the quotient is truncated
      towards zero, so the result carries the sign of the dividend.\<close>
  "js_rem a b = a - b * of_int (if 0 \<le> a / b then \<lfloor>a / b\<rfloor> else \<lceil>a / b\<rceil>)"

definition js_div :: "real \<Rightarrow> real \<Rightarrow> real option" where
  \<comment> \<open>\<open>a / b\<close>; with \<open>b = 0\<close> JavaScript answers \<open>Infinity\<close> or \<open>NaN\<close>.\<close>
  "js_div a b = (if b = 0 then None else Some (a / b))"

section \<open>Data\<close>

record vec3 =
  px :: real
  py :: real
  pz :: real

record screen =
  sx :: real
  sy :: real

text \<open>A catalog record; \<open>star_ra\<close> is in hours and \<open>star_dec\<close> in degrees.\<close>

record star =
  star_id :: string
  star_ra :: real
  star_dec :: real
  magnitude :: real

text \<open>
  The object \<open>{ ...star, ...coords }\<close>: every catalog field, and the projected
  coordinates; \<open>coords = None\<close> when a coordinate is not a finite number.
\<close>

record tstar =
  src :: star
  coords :: "vec3 option"

text \<open>A \<open>Date\<close>, through the four UTC getters that the renderer calls.\<close>

record instant =
  getUTCHours :: nat
  getUTCMinutes :: nat
  getUTCSeconds :: nat
  getUTCMilliseconds :: nat

type_synonym mat4 = "real list"

record active_star =
  star :: tstar
  timeCreated :: instant

text \<open>
  The fields of \<open>SkyRenderer\<close> that the view and projection code reads or writes.
  \<open>canvas_width\<close> and \<open>canvas_height\<close> are \<open>canvas.width\<close> and \<open>canvas.height\<close>
  (\<open>gl.canvas\<close> is the same element), \<open>clientWidth\<close> and \<open>clientHeight\<close> its
  display size. \<open>isDragging\<close>, \<open>lastX\<close> and \<open>lastY\<close> are the variables that the
  listeners of \<open>bindEvents\<close> share. The two matrices are unset until \<open>updateMatrices\<close>
  has run once. Canvas paths, WebGL buffers and DOM nodes are outputs and are left out.
\<close>

record renderer =
  latitude :: real
  longitude :: real
  projectionType :: string
  hammerRotation :: real
  pan_x :: real
  pan_y :: real
  scale :: real
  rotation_x :: real
  rotation_y :: real
  zoom :: real
  canvas_width :: real
  canvas_height :: real
  clientWidth :: real
  clientHeight :: real
  currentModelView :: mat4
  currentProjection :: mat4
  stars :: "star list option"
  starCount :: nat
  currentRenderTime :: "instant option"
  lastClickTime :: "instant option"
  activeStars :: "string \<rightharpoonup> active_star"
  isDragging :: bool
  lastX :: real
  lastY :: real

section \<open>Projection strategies\<close>

definition equatorialToCartesian :: "real \<Rightarrow> real \<Rightarrow> vec3" where
  "equatorialToCartesian ra dec =
     (let raRad = ra * pi / 12;
          decRad = dec * pi / 180
      in \<lparr>px = cos decRad * cos raRad, py = cos decRad * sin raRad, pz = sin decRad\<rparr>)"

definition equatorialToStereographic :: "real \<Rightarrow> real \<Rightarrow> vec3 option" where
  \<comment> \<open>\<open>k\<close> is \<open>Infinity\<close> when its denominator is zero, and then \<open>x\<close> and \<open>y\<close>
      are each \<open>Infinity\<close> or \<open>NaN\<close>.\<close>
  "equatorialToStereographic ra dec =
     (let raRad = (ra * 15) * pi / 180;
          decRad = dec * pi / 180;
          cosDec = cos decRad
      in case js_div 2 (1 + cosDec * cos raRad) of
           None \<Rightarrow> None
         | Some k \<Rightarrow> Some \<lparr>px = k * cosDec * sin raRad, py = k * sin decRad, pz = 0\<rparr>)"

definition mercator_normalizedRA :: "renderer \<Rightarrow> real \<Rightarrow> real" where
  "mercator_normalizedRA s ra =
     (let normalizedRA = ra * 15;
          normalizedRA = (if projectionType s = ''mercator''
                          then normalizedRA - (pan_x s * 180 / pi) else normalizedRA)
      in js_rem (js_rem normalizedRA 360 + 360) 360)"

definition mercator_decRad :: "real \<Rightarrow> real" where
  "mercator_decRad dec = max (min (dec * pi / 180) 1.4835) (- 1.4835)"

definition equatorialToMercator :: "renderer \<Rightarrow> real \<Rightarrow> real \<Rightarrow> vec3" where
  "equatorialToMercator s ra dec =
     (let raRad = (mercator_normalizedRA s ra - 180) * pi / 180;
          decRad = mercator_decRad dec
      in \<lparr>px = raRad, py = ln (tan (pi / 4 + decRad / 2)), pz = 0\<rparr>)"

text \<open>The two \<open>while\<close> loops of \<open>equatorialToHammer\<close>.\<close>

function wrap_above :: "real \<Rightarrow> real" where
  "wrap_above a = (if a > 360 then wrap_above (a - 360) else a)"
  by pat_completeness auto
termination
proof (relation "measure (\<lambda>a. nat \<lceil>a / 360\<rceil>)")
  show "wf (measure (\<lambda>a::real. nat \<lceil>a / 360\<rceil>))" by simp
next
  fix a :: real
  assume "360 < a"
  then have "1 < a / 360" by simp
  then have "1 < \<lceil>a / 360\<rceil>" by linarith
  moreover have "(a - 360) / 360 = a / 360 - 1" by simp
  then have "\<lceil>(a - 360) / 360\<rceil> = \<lceil>a / 360\<rceil> - 1"
    by (simp only: ceiling_diff_one)
  ultimately have "nat \<lceil>(a - 360) / 360\<rceil> < nat \<lceil>a / 360\<rceil>" by linarith
  then show "(a - 360, a) \<in> measure (\<lambda>a. nat \<lceil>a / 360\<rceil>)"
    by (simp only: in_measure)
qed

function wrap_below :: "real \<Rightarrow> real" where
  "wrap_below a = (if a < 0 then wrap_below (a + 360) else a)"
  by pat_completeness auto
termination
proof (relation "measure (\<lambda>a. nat \<lceil>- a / 360\<rceil>)")
  show "wf (measure (\<lambda>a::real. nat \<lceil>- a / 360\<rceil>))" by simp
next
  fix a :: real
  assume "a < 0"
  then have "0 < - a / 360" by simp
  then have "0 < \<lceil>- a / 360\<rceil>" by linarith
  moreover have "- (a + 360) / 360 = - a / 360 - 1" by simp
  then have "\<lceil>- (a + 360) / 360\<rceil> = \<lceil>- a / 360\<rceil> - 1"
    by (simp only: ceiling_diff_one)
  ultimately have "nat \<lceil>- (a + 360) / 360\<rceil> < nat \<lceil>- a / 360\<rceil>" by linarith
  then show "(a + 360, a) \<in> measure (\<lambda>a. nat \<lceil>- a / 360\<rceil>)"
    by (simp only: in_measure)
qed

declare wrap_above.simps [simp del] wrap_below.simps [simp del]

definition hammer_normalizedRA :: "renderer \<Rightarrow> real \<Rightarrow> real" where
  "hammer_normalizedRA s ra =
     (let normalizedRA = wrap_below (wrap_above (ra * 15))
      in if projectionType s = ''hammer'' \<and> hammerRotation s \<noteq> 0
         then js_rem (normalizedRA + (hammerRotation s * 180 / pi)) 360
         else normalizedRA)"

definition hammer_alphaPrime :: "renderer \<Rightarrow> real \<Rightarrow> real" where
  "hammer_alphaPrime s ra =
     (let raRad = (js_rem (hammer_normalizedRA s ra + 180) 360 - 180) * pi / 180
      in raRad / 2)"

definition hammer_denom :: "renderer \<Rightarrow> real \<Rightarrow> real \<Rightarrow> real" where
  "hammer_denom s ra dec =
     (let decRad = dec * pi / 180;
          cosAlpha = cos (hammer_alphaPrime s ra);
          cosDec = cos decRad
      in sqrt (1 + cosDec * cosAlpha))"

definition equatorialToHammer :: "renderer \<Rightarrow> real \<Rightarrow> real \<Rightarrow> vec3" where
  "equatorialToHammer s ra dec =
     (let decRad = dec * pi / 180;
          alphaPrime = hammer_alphaPrime s ra;
          cosDec = cos decRad;
          sinDec = sin decRad;
          denom = hammer_denom s ra dec
      in if denom = 0 then \<lparr>px = 0, py = 0, pz = 0\<rparr>
         else \<lparr>px = 2 * sqrt 2 * cosDec * sin alphaPrime / denom,
               py = sqrt 2 * sinDec / denom,
               pz = 0\<rparr>)"

section \<open>Catalog transform pipeline\<close>

definition totalHours :: "instant \<Rightarrow> real" where
  "totalHours t =
     real (getUTCHours t) + (real (getUTCMinutes t) / 60) + (real (getUTCSeconds t) / 3600)
       + (real (getUTCMilliseconds t) / 3600000)"

definition lst :: "renderer \<Rightarrow> instant \<Rightarrow> real" where
  "lst s t = totalHours t * 15 + longitude s"

definition starRA :: "renderer \<Rightarrow> instant \<Rightarrow> star \<Rightarrow> real" where
  "starRA s t st = js_rem (star_ra st * 15 - lst s t + 360) 360"

definition transformStar :: "renderer \<Rightarrow> string \<Rightarrow> instant \<Rightarrow> star \<Rightarrow> tstar" where
  "transformStar s type t st =
     (let ra' = starRA s t st;
          starDec = star_dec st;
          c = (if type = ''stereographic'' then equatorialToStereographic (ra' / 15) starDec
               else if type = ''mercator'' then Some (equatorialToMercator s (ra' / 15) starDec)
               else if type = ''hammer'' then Some (equatorialToHammer s (ra' / 15) starDec)
               else (let raRad = ra' * pi / 180;
                         decRad = starDec * pi / 180
                     in Some \<lparr>px = cos decRad * cos raRad,
                              py = cos decRad * sin raRad,
                              pz = sin decRad\<rparr>))
      in \<lparr>src = st, coords = c\<rparr>)"

definition transformStarsForProjection ::
  "renderer \<Rightarrow> star list \<Rightarrow> string \<Rightarrow> instant \<Rightarrow> tstar list" where
  "transformStarsForProjection s sts type t =
     (if sts = [] then [] else map (transformStar s type t) sts)"

section \<open>View state and screen projector\<close>

text \<open>
  The matrix routines come from the gl-matrix library, which is not part of the
  repository; they are written here after that library: a \<open>mat4\<close> is sixteen numbers in
  column-major order, and every routine below is called with \<open>out\<close> and \<open>a\<close> being the
  same matrix.
\<close>

definition mat4_create :: mat4 where
  "mat4_create = [1, 0, 0, 0,  0, 1, 0, 0,  0, 0, 1, 0,  0, 0, 0, 1]"

definition mat4_perspective :: "real \<Rightarrow> real \<Rightarrow> real \<Rightarrow> real \<Rightarrow> mat4" where
  "mat4_perspective fovy aspect near far =
     (let f = 1 / tan (fovy / 2);
          nf = 1 / (near - far)
      in [f / aspect, 0, 0, 0,
          0, f, 0, 0,
          0, 0, (far + near) * nf, - 1,
          0, 0, 2 * far * near * nf, 0])"

definition mat4_ortho :: "real \<Rightarrow> real \<Rightarrow> real \<Rightarrow> real \<Rightarrow> real \<Rightarrow> real \<Rightarrow> mat4" where
  "mat4_ortho left right bottm topp near far =
     (let lr = 1 / (left - right);
          bt = 1 / (bottm - topp);
          nf = 1 / (near - far)
      in [- 2 * lr, 0, 0, 0,
          0, - 2 * bt, 0, 0,
          0, 0, 2 * nf, 0,
          (left + right) * lr, (topp + bottm) * bt, (far + near) * nf, 1])"

definition mat4_translate :: "mat4 \<Rightarrow> real \<Rightarrow> real \<Rightarrow> real \<Rightarrow> mat4" where
  "mat4_translate a x y z =
     [a ! 0, a ! 1, a ! 2, a ! 3,
      a ! 4, a ! 5, a ! 6, a ! 7,
      a ! 8, a ! 9, a ! 10, a ! 11,
      a ! 0 * x + a ! 4 * y + a ! 8 * z + a ! 12,
      a ! 1 * x + a ! 5 * y + a ! 9 * z + a ! 13,
      a ! 2 * x + a ! 6 * y + a ! 10 * z + a ! 14,
      a ! 3 * x + a ! 7 * y + a ! 11 * z + a ! 15]"

definition mat4_scale :: "mat4 \<Rightarrow> real \<Rightarrow> real \<Rightarrow> real \<Rightarrow> mat4" where
  "mat4_scale a x y z =
     [a ! 0 * x, a ! 1 * x, a ! 2 * x, a ! 3 * x,
      a ! 4 * y, a ! 5 * y, a ! 6 * y, a ! 7 * y,
      a ! 8 * z, a ! 9 * z, a ! 10 * z, a ! 11 * z,
      a ! 12, a ! 13, a ! 14, a ! 15]"

definition mat4_rotate :: "mat4 \<Rightarrow> real \<Rightarrow> real \<Rightarrow> real \<Rightarrow> real \<Rightarrow> mat4" where
  \<comment> \<open>Rotation by \<open>rad\<close> about the axis \<open>(x, y, z)\<close>; an axis shorter than the
      library's epsilon leaves the matrix as it is.\<close>
  "mat4_rotate a rad x y z =
     (let len = sqrt (x * x + y * y + z * z)
      in if len < 0.000001 then a
         else
           (let x = x / len; y = y / len; z = z / len;
                sn = sin rad; c = cos rad; t = 1 - c;
                b00 = x * x * t + c; b01 = y * x * t + z * sn; b02 = z * x * t - y * sn;
                b10 = x * y * t - z * sn; b11 = y * y * t + c; b12 = z * y * t + x * sn;
                b20 = x * z * t + y * sn; b21 = y * z * t - x * sn; b22 = z * z * t + c
            in [a ! 0 * b00 + a ! 4 * b01 + a ! 8 * b02,
                a ! 1 * b00 + a ! 5 * b01 + a ! 9 * b02,
                a ! 2 * b00 + a ! 6 * b01 + a ! 10 * b02,
                a ! 3 * b00 + a ! 7 * b01 + a ! 11 * b02,
                a ! 0 * b10 + a ! 4 * b11 + a ! 8 * b12,
                a ! 1 * b10 + a ! 5 * b11 + a ! 9 * b12,
                a ! 2 * b10 + a ! 6 * b11 + a ! 10 * b12,
                a ! 3 * b10 + a ! 7 * b11 + a ! 11 * b12,
                a ! 0 * b20 + a ! 4 * b21 + a ! 8 * b22,
                a ! 1 * b20 + a ! 5 * b21 + a ! 9 * b22,
                a ! 2 * b20 + a ! 6 * b21 + a ! 10 * b22,
                a ! 3 * b20 + a ! 7 * b21 + a ! 11 * b22,
                a ! 12, a ! 13, a ! 14, a ! 15]))"

type_synonym vec4 = "real \<times> real \<times> real \<times> real"

definition vec4_transformMat4 :: "vec4 \<Rightarrow> mat4 \<Rightarrow> vec4" where
  "vec4_transformMat4 a m =
     (case a of (x, y, z, w) \<Rightarrow>
        (m ! 0 * x + m ! 4 * y + m ! 8 * z + m ! 12 * w,
         m ! 1 * x + m ! 5 * y + m ! 9 * z + m ! 13 * w,
         m ! 2 * x + m ! 6 * y + m ! 10 * z + m ! 14 * w,
         m ! 3 * x + m ! 7 * y + m ! 11 * z + m ! 15 * w))"

definition updateMatrices :: "renderer \<Rightarrow> renderer" where
  "updateMatrices s =
     (if projectionType s = ''spherical''
      then
        (let fieldOfView = 60 * pi / 180;
             aspect = clientWidth s / clientHeight s;
             zNear = 0.1;
             zFar = 100.0;
             projectionMatrix = mat4_perspective fieldOfView aspect zNear zFar;
             modelViewMatrix = mat4_create;
             modelViewMatrix = mat4_translate modelViewMatrix 0.0 0.0 (- 2.0);
             modelViewMatrix = mat4_rotate modelViewMatrix (rotation_x s) 1 0 0;
             modelViewMatrix = mat4_rotate modelViewMatrix (rotation_y s) 0 1 0;
             modelViewMatrix = mat4_scale modelViewMatrix (zoom s) (zoom s) (zoom s)
         in s\<lparr>currentModelView := modelViewMatrix, currentProjection := projectionMatrix\<rparr>)
      else
        (let width = clientWidth s;
             height = clientHeight s;
             aspect = width / height;
             viewWidth = 4.0;
             viewHeight = viewWidth / aspect;
             projectionMatrix =
               mat4_ortho (- viewWidth / 2) (viewWidth / 2) (- viewHeight / 2) (viewHeight / 2)
                 (- 1) 1;
             modelViewMatrix = mat4_create;
             modelViewMatrix = mat4_scale modelViewMatrix (scale s) (scale s) 1;
             modelViewMatrix =
               (if projectionType s \<noteq> ''mercator''
                then mat4_translate modelViewMatrix (pan_x s / scale s) (pan_y s / scale s) 0
                else mat4_translate modelViewMatrix 0 (pan_y s / scale s) 0)
         in s\<lparr>currentModelView := modelViewMatrix, currentProjection := projectionMatrix\<rparr>))"

definition clip_pos :: "renderer \<Rightarrow> vec3 \<Rightarrow> vec4" where
  \<comment> \<open>\<open>pos\<close> after the two \<open>vec4.transformMat4\<close> calls of \<open>projectPoint\<close>.\<close>
  "clip_pos s point =
     vec4_transformMat4
       (vec4_transformMat4 (px point, py point, pz point, 1.0) (currentModelView s))
       (currentProjection s)"

definition projectPoint :: "renderer \<Rightarrow> vec3 \<Rightarrow> screen option" where
  "projectPoint s point =
     (case clip_pos s point of (p0, p1, p2, p3) \<Rightarrow>
        if p3 \<le> 0 then None
        else Some \<lparr>sx = (p0 / p3 + 1) * canvas_width s / 2,
                    sy = (- p1 / p3 + 1) * canvas_height s / 2\<rparr>)"

section \<open>Rendering\<close>

definition resize :: "renderer \<Rightarrow> renderer" where
  "resize s =
     (let displayWidth = clientWidth s;
          displayHeight = clientHeight s
      in if canvas_width s \<noteq> displayWidth \<or> canvas_height s \<noteq> displayHeight
         then s\<lparr>canvas_width := displayWidth, canvas_height := displayHeight\<rparr>
         else s)"

definition updateStarData :: "renderer \<Rightarrow> star list \<Rightarrow> instant \<Rightarrow> renderer" where
  "updateStarData s sts currentTime =
     (if sts = [] then s
      else
        (let s1 = s\<lparr>stars := Some sts\<rparr>;
             transformedStars =
               transformStarsForProjection s1 sts (projectionType s1) currentTime;
             actives =
               foldl (\<lambda>m transformedStar.
                        case m (star_id (src transformedStar)) of
                          None \<Rightarrow> m
                        | Some info \<Rightarrow>
                            m(star_id (src transformedStar) \<mapsto> info\<lparr>star := transformedStar\<rparr>))
                 (activeStars s1) transformedStars
         in s1\<lparr>activeStars := actives, starCount := length transformedStars\<rparr>))"

definition render :: "renderer \<Rightarrow> instant \<Rightarrow> renderer" where
  \<comment> \<open>The state that a \<open>render\<close> call leaves; what it draws is not modelled.\<close>
  "render s currentTime =
     (let s1 = resize (s\<lparr>currentRenderTime := Some currentTime\<rparr>);
          s2 = updateMatrices s1
      in case stars s2 of
           None \<Rightarrow> s2
         | Some sts \<Rightarrow> updateStarData s2 sts currentTime)"

definition validTypes :: "string list" where
  "validTypes = [''spherical'', ''stereographic'', ''mercator'', ''hammer'']"

definition setProjection :: "renderer \<Rightarrow> string \<Rightarrow> instant \<Rightarrow> renderer" where
  \<comment> \<open>The instant is what \<open>new Date()\<close> yields for the default argument of
      \<open>updateStarData\<close>.\<close>
  "setProjection s type date =
     (if type \<in> set validTypes
      then
        (let s1 = s\<lparr>projectionType := type\<rparr>
         in case stars s1 of
              None \<Rightarrow> s1
            | Some sts \<Rightarrow> updateStarData s1 sts date)
      else s)"

section \<open>Input handlers\<close>

text \<open>
  An event as the listeners of \<open>bindEvents\<close> read it: the pointer position, the origin
  of the canvas rectangle, the shift key, the wheel delta, and \<open>ev_date\<close>, the instant
  that \<open>new Date()\<close> yields while the listener runs.
\<close>

record event =
  clientX :: real
  clientY :: real
  rect_left :: real
  rect_top :: real
  shiftKey :: bool
  ev_deltaY :: real
  ev_date :: instant

definition mousedown :: "renderer \<Rightarrow> event \<Rightarrow> renderer" where
  "mousedown s e = s\<lparr>isDragging := True, lastX := clientX e, lastY := clientY e\<rparr>"

definition mousemove :: "renderer \<Rightarrow> event \<Rightarrow> renderer" where
  \<comment> \<open>The view part of the listener; the tooltip code before it only touches the DOM.\<close>
  "mousemove s e =
     (if \<not> isDragging s then s
      else
        (let deltaX = clientX e - lastX s;
             deltaY = clientY e - lastY s;
             s1 =
               (if projectionType s = ''spherical''
                then s\<lparr>rotation_x := rotation_x s + deltaY * 0.005,
                        rotation_y := rotation_y s + deltaX * 0.005\<rparr>
                else if projectionType s = ''stereographic''
                then (let stereoScaleFactor = 2.0 / (scale s * canvas_width s)
                      in s\<lparr>pan_x := pan_x s + deltaX * stereoScaleFactor,
                              pan_y := pan_y s - deltaY * stereoScaleFactor\<rparr>)
                else if projectionType s = ''hammer''
                then (if shiftKey e
                      then s\<lparr>hammerRotation := hammerRotation s + deltaX * 0.005\<rparr>
                      else (let hammerScaleFactor = 2.0 / (scale s * canvas_width s)
                            in s\<lparr>pan_x := pan_x s + deltaX * hammerScaleFactor,
                                    pan_y := pan_y s - deltaY * hammerScaleFactor\<rparr>))
                else if projectionType s = ''mercator''
                then (let mercatorScaleFactor = 2.0 / (scale s * canvas_width s);
                          newY = pan_y s - deltaY * mercatorScaleFactor
                      in s\<lparr>pan_x := pan_x s + deltaX * mercatorScaleFactor,
                              pan_y := max (min newY (pi / 2)) (- pi / 2)\<rparr>)
                else s);
             s2 = s1\<lparr>lastX := clientX e, lastY := clientY e\<rparr>
         in render s2 (ev_date e)))"

definition wheel :: "renderer \<Rightarrow> event \<Rightarrow> renderer" where
  "wheel s e =
     (let s1 =
            (if projectionType s = ''spherical''
             then (let z = zoom s * (if ev_deltaY e > 0 then 0.9 else 1.1)
                   in s\<lparr>zoom := max 0.1 (min z 5.0)\<rparr>)
             else
               (let zoomFactor = (if ev_deltaY e > 0 then 0.9 else 1.1);
                    mouseX = clientX e - rect_left e;
                    mouseY = clientY e - rect_top e;
                    ndcX = (mouseX / canvas_width s) * 2 - 1;
                    ndcY = 1 - (mouseY / canvas_height s) * 2;
                    sc = scale s * zoomFactor
                in s\<lparr>pan_x := (pan_x s - ndcX) * zoomFactor + ndcX,
                        pan_y := (pan_y s - ndcY) * zoomFactor + ndcY,
                        scale := max 0.1 (min sc 10.0)\<rparr>))
      in render s1 (ev_date e))"

section \<open>Picking\<close>

text \<open>
  The three variables of the search loop in the \<open>click\<close> listener; \<open>minDistance = None\<close>
  is its initial value \<open>Infinity\<close>.
\<close>

record pick_acc =
  closestStar :: "tstar option"
  minDistance :: "real option"
  closestProjected :: "screen option"

definition projected_of :: "renderer \<Rightarrow> tstar \<Rightarrow> screen option" where
  \<comment> \<open>A star whose coordinates are not finite numbers gets a \<open>NaN\<close> distance, which
      is never below \<open>minDistance\<close>: the loop passes over it as it does for \<open>null\<close>.\<close>
  "projected_of s st = (case coords st of None \<Rightarrow> None | Some c \<Rightarrow> projectPoint s c)"

definition pick_distance :: "real \<Rightarrow> real \<Rightarrow> screen \<Rightarrow> real" where
  "pick_distance mouseX mouseY projected =
     (let dx = sx projected - mouseX;
          dy = sy projected - mouseY
      in sqrt (dx * dx + dy * dy))"

definition pick_step :: "renderer \<Rightarrow> real \<Rightarrow> real \<Rightarrow> pick_acc \<Rightarrow> tstar \<Rightarrow> pick_acc" where
  "pick_step s mouseX mouseY acc st =
     (case projected_of s st of
        None \<Rightarrow> acc
      | Some projected \<Rightarrow>
          (let distance = pick_distance mouseX mouseY projected
           in if (case minDistance acc of None \<Rightarrow> True | Some m \<Rightarrow> distance < m)
              then \<lparr>closestStar = Some st, minDistance = Some distance,
                    closestProjected = Some projected\<rparr>
              else acc))"

definition click_time :: "renderer \<Rightarrow> event \<Rightarrow> instant" where
  \<comment> \<open>\<open>this.currentRenderTime || new Date()\<close>\<close>
  "click_time s e = (case currentRenderTime s of Some t \<Rightarrow> t | None \<Rightarrow> ev_date e)"

definition click_prepare :: "renderer \<Rightarrow> event \<Rightarrow> renderer" where
  \<comment> \<open>The renderer when the search loop starts.\<close>
  "click_prepare s e = updateMatrices (s\<lparr>lastClickTime := Some (click_time s e)\<rparr>)"

definition click_candidates :: "renderer \<Rightarrow> event \<Rightarrow> star list \<Rightarrow> tstar list" where
  "click_candidates s e sts =
     (let s1 = s\<lparr>lastClickTime := Some (click_time s e)\<rparr>
      in transformStarsForProjection s1 sts (projectionType s1) (click_time s e))"

definition click_search :: "renderer \<Rightarrow> event \<Rightarrow> star list \<Rightarrow> pick_acc" where
  "click_search s e sts =
     (let mouseX = clientX e - rect_left e;
          mouseY = clientY e - rect_top e
      in foldl (pick_step (click_prepare s e) mouseX mouseY)
           \<lparr>closestStar = None, minDistance = None, closestProjected = None\<rparr>
           (click_candidates s e sts))"

definition threshold :: real where
  "threshold = 10"

definition is_hit :: "pick_acc \<Rightarrow> bool" where
  "is_hit acc =
     ((case minDistance acc of None \<Rightarrow> False | Some m \<Rightarrow> m < threshold)
      \<and> closestStar acc \<noteq> None \<and> closestProjected acc \<noteq> None)"

definition click_pick :: "renderer \<Rightarrow> event \<Rightarrow> tstar option" where
  \<comment> \<open>The star for which the listener opens an info window, if any.\<close>
  "click_pick s e =
     (case stars s of
        None \<Rightarrow> None
      | Some sts \<Rightarrow>
          (let acc = click_search s e sts in if is_hit acc then closestStar acc else None))"

definition click :: "renderer \<Rightarrow> event \<Rightarrow> renderer" where
  "click s e =
     (case stars s of
        None \<Rightarrow> s
      | Some sts \<Rightarrow>
          (let currentTime = click_time s e;
               s2 = click_prepare s e
           in case click_pick s e of
                None \<Rightarrow> s2
              | Some cs \<Rightarrow>
                  render
                    (s2\<lparr>activeStars :=
                          (activeStars s2)(star_id (src cs) \<mapsto>
                             \<lparr>star = cs, timeCreated = currentTime\<rparr>)\<rparr>)
                    (ev_date e)))"

text \<open>
  The distance of a transformed star from the pointer, as the search loop computes it, and
  what it means that \<open>b\<close> is the first star of the list at the least distance \<open>d\<close>:
  every earlier star with a distance is strictly farther, every later one at least as far.
\<close>

definition cand_distance :: "renderer \<Rightarrow> event \<Rightarrow> tstar \<Rightarrow> real option" where
  "cand_distance s e st =
     map_option (pick_distance (clientX e - rect_left e) (clientY e - rect_top e))
       (projected_of (click_prepare s e) st)"

definition first_nearest :: "renderer \<Rightarrow> event \<Rightarrow> tstar list \<Rightarrow> tstar \<Rightarrow> real \<Rightarrow> bool" where
  "first_nearest s e xs b d =
     (\<exists>pre post.
        xs = pre @ b # post \<and> cand_distance s e b = Some d
        \<and> (\<forall>u\<in>set pre. \<forall>d'. cand_distance s e u = Some d' \<longrightarrow> d < d')
        \<and> (\<forall>u\<in>set post. \<forall>d'. cand_distance s e u = Some d' \<longrightarrow> d \<le> d'))"

text \<open>The invariant of the search loop after the stars \<open>xs\<close>.\<close>

definition nearest_at ::
  "renderer \<Rightarrow> real \<Rightarrow> real \<Rightarrow> tstar list \<Rightarrow> tstar \<Rightarrow> screen \<Rightarrow> bool" where
  "nearest_at s mx my xs b p =
     (\<exists>pre post.
        xs = pre @ b # post \<and> projected_of s b = Some p
        \<and> (\<forall>u\<in>set pre. \<forall>q. projected_of s u = Some q
              \<longrightarrow> pick_distance mx my p < pick_distance mx my q)
        \<and> (\<forall>u\<in>set post. \<forall>q. projected_of s u = Some q
              \<longrightarrow> pick_distance mx my p \<le> pick_distance mx my q))"

definition acc_ok :: "renderer \<Rightarrow> real \<Rightarrow> real \<Rightarrow> tstar list \<Rightarrow> pick_acc \<Rightarrow> bool" where
  "acc_ok s mx my xs acc =
     (case closestStar acc of
        None \<Rightarrow> minDistance acc = None \<and> (\<forall>u\<in>set xs. projected_of s u = None)
      | Some b \<Rightarrow>
          (\<exists>p. closestProjected acc = Some p
             \<and> minDistance acc = Some (pick_distance mx my p)
             \<and> nearest_at s mx my xs b p))"

section \<open>Polyline clipping\<close>

definition shouldDraw :: "string \<Rightarrow> real \<Rightarrow> real \<Rightarrow> screen \<Rightarrow> screen \<Rightarrow> bool" where
  \<comment> \<open>The value of \<open>shouldDraw\<close> in \<open>drawGrid\<close> for a point at \<open>pos\<close> that follows
      one at \<open>lastPos\<close>.\<close>
  "shouldDraw type canvasWidth canvasHeight lastPos pos =
     (let dx = sx pos - sx lastPos;
          dy = sy pos - sy lastPos;
          distance = sqrt (dx * dx + dy * dy)
      in if type = ''hammer''
         then
           (let nx1 = (sx lastPos / canvasWidth) * 2 - 1;
                nx2 = (sx pos / canvasWidth) * 2 - 1;
                ny1 = (sy lastPos / canvasHeight) * 2 - 1;
                ny2 = (sy pos / canvasHeight) * 2 - 1;
                r1 = sqrt (nx1 * nx1 + ny1 * ny1);
                r2 = sqrt (nx2 * nx2 + ny2 * ny2);
                edgeThreshold = 1.15
            in \<not> (r1 > edgeThreshold \<or> r2 > edgeThreshold
                  \<or> distance > canvasWidth * 0.4
                  \<or> (nx1 * nx2 < 0 \<and> \<bar>dx\<bar> > canvasWidth * 0.4)))
         else if type = ''mercator''
         then \<not> (\<bar>dx\<bar> > canvasWidth * 0.8)
         else True)"

datatype path_cmd = BeginPath | MoveTo real real | LineTo real real | Stroke

record path_state =
  is_first :: bool
  last_pos :: "screen option"
  cmds :: "path_cmd list"

definition draw_pos :: "string \<Rightarrow> real \<Rightarrow> real \<Rightarrow> path_state \<Rightarrow> screen option \<Rightarrow> path_state" where
  \<comment> \<open>One round of the loop over \<open>line.points\<close>, from the result of \<open>projectPoint\<close> on.\<close>
  "draw_pos type canvasWidth canvasHeight st p =
     (case p of
        None \<Rightarrow> st
      | Some pos \<Rightarrow>
          (if is_first st
           then st\<lparr>is_first := False, last_pos := Some pos,
                   cmds := cmds st @ [MoveTo (sx pos) (sy pos)]\<rparr>
           else
             (let draw = (case last_pos st of
                            None \<Rightarrow> True
                          | Some lp \<Rightarrow> shouldDraw type canvasWidth canvasHeight lp pos)
              in if draw
                 then st\<lparr>last_pos := Some pos, cmds := cmds st @ [LineTo (sx pos) (sy pos)]\<rparr>
                 else st\<lparr>last_pos := Some pos,
                         cmds := cmds st @ [Stroke, BeginPath, MoveTo (sx pos) (sy pos)]\<rparr>)))"

definition draw_line :: "string \<Rightarrow> real \<Rightarrow> real \<Rightarrow> screen option list \<Rightarrow> path_cmd list" where
  "draw_line type canvasWidth canvasHeight ps =
     cmds (foldl (draw_pos type canvasWidth canvasHeight)
             \<lparr>is_first = True, last_pos = None, cmds = [BeginPath]\<rparr> ps) @ [Stroke]"

text \<open>The clipping rule in the words of the specification.\<close>

definition norm_radius :: "real \<Rightarrow> real \<Rightarrow> screen \<Rightarrow> real" where
  \<comment> \<open>Distance from the image centre, each axis scaled to \<open>[-1, 1]\<close>.\<close>
  "norm_radius w h p = sqrt (((sx p / w) * 2 - 1)\<^sup>2 + ((sy p / h) * 2 - 1)\<^sup>2)"

definition pixel_length :: "screen \<Rightarrow> screen \<Rightarrow> real" where
  "pixel_length a b = sqrt ((sx b - sx a)\<^sup>2 + (sy b - sy a)\<^sup>2)"

definition opposite_halves :: "real \<Rightarrow> screen \<Rightarrow> screen \<Rightarrow> bool" where
  "opposite_halves w a b =
     ((sx a < w / 2 \<and> w / 2 < sx b) \<or> (sx b < w / 2 \<and> w / 2 < sx a))"

definition spec_suppress :: "string \<Rightarrow> real \<Rightarrow> real \<Rightarrow> screen \<Rightarrow> screen \<Rightarrow> bool" where
  "spec_suppress type w h a b =
     ((type = ''hammer'' \<and>
         (norm_radius w h a > 1.15 \<or> norm_radius w h b > 1.15
          \<or> pixel_length a b > 0.4 * w
          \<or> (opposite_halves w a b \<and> \<bar>sx b - sx a\<bar> > 0.4 * w)))
      \<or> (type = ''mercator'' \<and> \<bar>sx b - sx a\<bar> > 0.8 * w))"

section \<open>Navigation\<close>

text \<open>
  What the closure \<open>animate\<close> of \<open>navigateToStar\<close> captures. The two pan targets
  are declared without a value and are assigned only on some paths: \<open>None\<close> is
  \<open>undefined\<close>.
\<close>

record animation =
  startRotX :: real
  startRotY :: real
  startZoom :: real
  startScale :: real
  startPanX :: real
  startPanY :: real
  targetRotX :: real
  targetRotY :: real
  targetPanX :: "real option"
  targetPanY :: "real option"
  startTime :: real

definition navigateToStar :: "renderer \<Rightarrow> star \<Rightarrow> real \<Rightarrow> animation" where
  \<comment> \<open>The last argument is the reading of \<open>performance.now()\<close>. In a flat mode with
      no screen position for the star the animation starts all the same, its pan targets
      undefined.\<close>
  "navigateToStar s st perf_now =
     (let raRad = star_ra st * pi / 12;
          decRad = star_dec st * pi / 180;
          a = \<lparr>startRotX = rotation_x s, startRotY = rotation_y s, startZoom = zoom s,
               startScale = scale s, startPanX = pan_x s, startPanY = pan_y s,
               targetRotX = rotation_x s, targetRotY = rotation_y s,
               targetPanX = None, targetPanY = None, startTime = perf_now\<rparr>
      in if projectionType s = ''spherical''
         then a\<lparr>targetRotX := - decRad, targetRotY := - raRad,
                 targetPanX := Some 0, targetPanY := Some 0\<rparr>
         else
           (case projectPoint s (equatorialToCartesian (star_ra st) (star_dec st)) of
              None \<Rightarrow> a
            | Some pos \<Rightarrow>
                (let canvasWidth = canvas_width s;
                     canvasHeight = canvas_height s
                 in a\<lparr>targetPanX :=
                         Some (- (sx pos - canvasWidth / 2) / (scale s * canvasWidth) * 4),
                       targetPanY :=
                         Some ((sy pos - canvasHeight / 2) / (scale s * canvasHeight) * 4)\<rparr>)))"

definition easing_at :: "animation \<Rightarrow> real \<Rightarrow> real" where
  "easing_at a currentTime =
     (let elapsed = currentTime - startTime a;
          duration = 1000;
          progress = min (elapsed / duration) 1
      in 1 - (1 - progress) ^ 3)"

text \<open>
  What one frame callback leaves. With an undefined pan target the callback stores
  \<open>NaN\<close> in \<open>pan.x\<close> and \<open>pan.y\<close>, and the matrices that \<open>render\<close> then builds
  from them are not numbers either; zoom and scale are interpolated as on every other
  path. Such a frame is \<open>Frame_pan_NaN zoom scale again\<close>; a frame that leaves a
  renderer of numbers is \<open>Frame renderer again\<close>. \<open>again\<close> tells whether another
  frame is requested.
\<close>

datatype frame =
    Frame renderer bool
  | Frame_pan_NaN real real bool

definition frame_zoom :: "frame \<Rightarrow> real" where
  "frame_zoom f = (case f of Frame s again \<Rightarrow> zoom s | Frame_pan_NaN z sc again \<Rightarrow> z)"

definition frame_scale :: "frame \<Rightarrow> real" where
  "frame_scale f = (case f of Frame s again \<Rightarrow> scale s | Frame_pan_NaN z sc again \<Rightarrow> sc)"

definition animate :: "renderer \<Rightarrow> animation \<Rightarrow> real \<Rightarrow> instant \<Rightarrow> frame" where
  \<comment> \<open>One frame callback with timestamp \<open>currentTime\<close>; \<open>date\<close> is the instant of the
      \<open>render\<close> call. On the \<open>NaN\<close> path only \<open>projectionType\<close> is read from the
      renderer. The click that the last frame schedules through a timer is a later event
      of its own.\<close>
  "animate s a currentTime date =
     (let elapsed = currentTime - startTime a;
          duration = 1000;
          progress = min (elapsed / duration) 1;
          easing = easing_at a currentTime;
          s1 = (if projectionType s = ''spherical''
                then Some (s\<lparr>rotation_x := startRotX a + (targetRotX a - startRotX a) * easing,
                              rotation_y := startRotY a + (targetRotY a - startRotY a) * easing\<rparr>)
                else (case (targetPanX a, targetPanY a) of
                        (Some tx, Some ty) \<Rightarrow>
                          Some (s\<lparr>pan_x := startPanX a + (tx - startPanX a) * easing,
                                  pan_y := startPanY a + (ty - startPanY a) * easing\<rparr>)
                      | _ \<Rightarrow> None));
          newZoom = startZoom a + (2.0 - startZoom a) * easing;
          newScale = startScale a + (1.0 - startScale a) * easing
      in case s1 of
           None \<Rightarrow> Frame_pan_NaN newZoom newScale (progress < 1)
         | Some s1 \<Rightarrow>
             Frame (render (updateMatrices (s1\<lparr>zoom := newZoom, scale := newScale\<rparr>)) date)
               (progress < 1))"

section \<open>A renderer to compute with\<close>

definition constructed :: "real \<Rightarrow> real \<Rightarrow> renderer" where
  \<comment> \<open>The fields as the constructor leaves them on a canvas of the given display size.\<close>
  "constructed w h =
     \<lparr>latitude = 43.6532, longitude = - 79.3832, projectionType = ''spherical'',
      hammerRotation = 0, pan_x = 0, pan_y = 0, scale = 1.0, rotation_x = 0, rotation_y = 0,
      zoom = 2.0, canvas_width = w, canvas_height = h, clientWidth = w, clientHeight = h,
      currentModelView = [], currentProjection = [], stars = None, starCount = 0,
      currentRenderTime = None, lastClickTime = None, activeStars = Map.empty,
      isDragging = False, lastX = 0, lastY = 0\<rparr>"

definition at_time :: "nat \<Rightarrow> nat \<Rightarrow> nat \<Rightarrow> nat \<Rightarrow> instant" where
  "at_time h m sec ms =
     \<lparr>getUTCHours = h, getUTCMinutes = m, getUTCSeconds = sec, getUTCMilliseconds = ms\<rparr>"

definition pointer_at :: "real \<Rightarrow> real \<Rightarrow> instant \<Rightarrow> event" where
  "pointer_at u v t =
     \<lparr>clientX = u, clientY = v, rect_left = 0, rect_top = 0, shiftKey = False,
      ev_deltaY = 0, ev_date = t\<rparr>"

definition catalog_star :: "string \<Rightarrow> real \<Rightarrow> real \<Rightarrow> star" where
  "catalog_star i r d = \<lparr>star_id = i, star_ra = r, star_dec = d, magnitude = 1\<rparr>"



definition drag_example :: renderer where
  "drag_example = (constructed 800 600)\<lparr>projectionType := ''mercator'', isDragging := True\<rparr>"

definition at_limits :: renderer where
  \<comment> \<open>Spherical mode, zoomed out to the lower limit; the scale of the flat modes is at
      its upper limit.\<close>
  "at_limits = (constructed 800 600)\<lparr>zoom := 0.1, scale := 10.0\<rparr>"

definition from_limits :: animation where
  \<comment> \<open>What \<open>navigateToStar\<close> captures on \<open>at_limits\<close> at clock reading 1000.\<close>
  "from_limits =
     \<lparr>startRotX = 0, startRotY = 0, startZoom = 0.1, startScale = 10,
      startPanX = 0, startPanY = 0, targetRotX = 0, targetRotY = 0,
      targetPanX = Some 0, targetPanY = Some 0, startTime = 1000\<rparr>"

definition greenwich :: renderer where
  "greenwich = (constructed 800 600)\<lparr>longitude := 0\<rparr>"

definition hammer_example :: renderer where
  "hammer_example = (constructed 800 600)\<lparr>projectionType := ''hammer''\<rparr>"

definition star_a :: star where
  "star_a = catalog_star ''a'' 12 0"

definition star_b :: star where
  "star_b = catalog_star ''b'' 12 0"

definition pick_example :: renderer where
  \<comment> \<open>Mercator mode chosen, a catalog of two stars loaded, one frame rendered at
      00:00:00.000 UTC.\<close>
  "pick_example =
     render
       (updateStarData (setProjection greenwich ''mercator'' (at_time 0 0 0 0))
          [star_a, star_b] (at_time 0 0 0 0))
       (at_time 0 0 0 0)"

section \<open>View state invariant\<close>

definition view_ok :: "renderer \<Rightarrow> bool" where
  "view_ok s = (0.1 \<le> zoom s \<and> zoom s \<le> 5.0 \<and> 0.1 \<le> scale s \<and> scale s \<le> 10.0)"

definition frame_view_ok :: "frame \<Rightarrow> bool" where
  "frame_view_ok f =
     (0.1 \<le> frame_zoom f \<and> frame_zoom f \<le> 5.0
      \<and> 0.1 \<le> frame_scale f \<and> frame_scale f \<le> 10.0)"

section \<open>What the handlers leave unchanged\<close>

lemma updateStarData_view:
  "projectionType (updateStarData s sts t) = projectionType s"
  "pan_x (updateStarData s sts t) = pan_x s"
  "pan_y (updateStarData s sts t) = pan_y s"
  "zoom (updateStarData s sts t) = zoom s"
  "scale (updateStarData s sts t) = scale s"
  by (simp_all add: updateStarData_def Let_def)

lemma updateMatrices_view:
  "projectionType (updateMatrices s) = projectionType s"
  "pan_x (updateMatrices s) = pan_x s"
  "pan_y (updateMatrices s) = pan_y s"
  "zoom (updateMatrices s) = zoom s"
  "scale (updateMatrices s) = scale s"
  "stars (updateMatrices s) = stars s"
  by (simp_all add: updateMatrices_def Let_def)

lemma resize_view:
  "projectionType (resize s) = projectionType s"
  "pan_x (resize s) = pan_x s"
  "pan_y (resize s) = pan_y s"
  "zoom (resize s) = zoom s"
  "scale (resize s) = scale s"
  "stars (resize s) = stars s"
  by (simp_all add: resize_def Let_def)

lemma render_view:
  "projectionType (render s t) = projectionType s"
  "pan_x (render s t) = pan_x s"
  "pan_y (render s t) = pan_y s"
  "zoom (render s t) = zoom s"
  "scale (render s t) = scale s"
  by (simp_all add: render_def Let_def updateStarData_view updateMatrices_view resize_view
      split: option.split)

section \<open>Projection mode\<close>

text \<open>
  Claim C9. \<open>setProjection\<close> with an argument that is not one of \<open>spherical\<close>,
  \<open>stereographic\<close>, \<open>mercator\<close>, \<open>hammer\<close> returns the renderer as it was (the
  function is total: nothing is thrown); with one of the four it makes that mode the
  active one.
\<close>

theorem setProjection_modes:
  "set validTypes = {''spherical'', ''stereographic'', ''mercator'', ''hammer''}
   \<and> (type \<notin> set validTypes \<longrightarrow> setProjection s type d = s)
   \<and> (type \<in> set validTypes \<longrightarrow> projectionType (setProjection s type d) = type)"
  by (auto simp add: setProjection_def validTypes_def Let_def updateStarData_view
      split: option.split)

theorem setProjection_modes_witness:
  "''globe'' \<notin> set validTypes
   \<and> setProjection (constructed 800 600) ''globe'' (at_time 0 0 0 0) = constructed 800 600
   \<and> ''hammer'' \<in> set validTypes
   \<and> projectionType (setProjection (constructed 800 600) ''hammer'' (at_time 0 0 0 0))
       = ''hammer''"
  using setProjection_modes [of "''globe''" "constructed 800 600" "at_time 0 0 0 0"]
    setProjection_modes [of "''hammer''" "constructed 800 600" "at_time 0 0 0 0"]
  by (simp add: validTypes_def)

section \<open>Dragging in Mercator mode\<close>

text \<open>
  Claim C10. In Mercator mode a drag step stores as \<open>pan.y\<close> the new vertical pan
  \<open>pan.y - deltaY \<sqdot> 2 / (scale \<sqdot> width)\<close> clamped to \<open>[-\<pi>/2, \<pi>/2]\<close>, so
  \<open>pan.y\<close> is within that range whatever the pointer movement and the earlier
  \<open>pan.y\<close>, while \<open>pan.x\<close> moves by the scaled horizontal delta with no bound: every
  real number is the \<open>pan.x\<close> of some drag step. The scale factor
  \<open>2 / (scale \<sqdot> width)\<close> is a number only on a canvas of positive width and with a
  positive scale, which is assumed.
\<close>

theorem mercator_drag_pan:
  assumes "projectionType s = ''mercator''" and "isDragging s"
    and "0 < scale s" and "0 < canvas_width s"
  shows "pan_y (mousemove s e)
        = max (min (pan_y s - (clientY e - lastY s) * (2 / (scale s * canvas_width s)))
                 (pi / 2)) (- pi / 2)
    \<and> - pi / 2 \<le> pan_y (mousemove s e) \<and> pan_y (mousemove s e) \<le> pi / 2
    \<and> pan_x (mousemove s e)
        = pan_x s + (clientX e - lastX s) * (2 / (scale s * canvas_width s))
    \<and> (\<forall>v. \<exists>e'. pan_x (mousemove s e') = v)"
proof -
  have px: "pan_x (mousemove s e')
        = pan_x s + (clientX e' - lastX s) * (2 / (scale s * canvas_width s))" for e'
    using assms by (simp add: mousemove_def Let_def render_view)
  have py: "pan_y (mousemove s e)
        = max (min (pan_y s - (clientY e - lastY s) * (2 / (scale s * canvas_width s)))
                 (pi / 2)) (- pi / 2)"
    using assms by (simp add: mousemove_def Let_def render_view)
  have nz: "scale s * canvas_width s \<noteq> 0" using assms by simp
  have "\<exists>e'. pan_x (mousemove s e') = v" for v
  proof
    let ?e = "e\<lparr>clientX := lastX s + (v - pan_x s) * (scale s * canvas_width s) / 2\<rparr>"
    show "pan_x (mousemove s ?e) = v"
      using nz by (simp add: px)
  qed
  then show ?thesis using px [of e] py by (simp add: max_def min_def)
qed

theorem mercator_drag_pan_witness:
  "projectionType drag_example = ''mercator'' \<and> isDragging drag_example
   \<and> 0 < scale drag_example \<and> 0 < canvas_width drag_example
   \<and> pan_y (mousemove drag_example (pointer_at 10 10000 (at_time 0 0 0 0))) = - pi / 2
   \<and> pan_y (mousemove drag_example (pointer_at 10 (- 10000) (at_time 0 0 0 0))) = pi / 2
   \<and> pan_y (mousemove drag_example (pointer_at 10 80 (at_time 0 0 0 0))) = - 1 / 5
   \<and> pan_x (mousemove drag_example (pointer_at 10 80 (at_time 0 0 0 0))) = 1 / 40"
proof -
  have h: "projectionType drag_example = ''mercator''" "isDragging drag_example"
    "0 < scale drag_example" "0 < canvas_width drag_example"
    by (simp_all add: drag_example_def constructed_def)
  have f: "pan_y drag_example = 0" "pan_x drag_example = 0" "lastY drag_example = 0"
    "lastX drag_example = 0" "scale drag_example = 1" "canvas_width drag_example = 800"
    by (simp_all add: drag_example_def constructed_def)
  have p: "pi / 2 < 25" "0 < pi / 2" "1 / 5 < pi / 2"
    using pi_less_4 pi_ge_two by simp_all
  show ?thesis
    using h p
      mercator_drag_pan [OF h, of "pointer_at 10 10000 (at_time 0 0 0 0)"]
      mercator_drag_pan [OF h, of "pointer_at 10 (- 10000) (at_time 0 0 0 0)"]
      mercator_drag_pan [OF h, of "pointer_at 10 80 (at_time 0 0 0 0)"]
    by (simp add: f pointer_at_def max_def min_def)
qed

section \<open>Screen projector\<close>











section \<open>Zoom and scale ranges\<close>

lemma between_endpoints:
  fixes a b e lo hi :: real
  assumes "0 \<le> e" "e \<le> 1" "lo \<le> a" "a \<le> hi" "lo \<le> b" "b \<le> hi"
  shows "lo \<le> a + (b - a) * e \<and> a + (b - a) * e \<le> hi"
proof -
  have eq: "a + (b - a) * e = (1 - e) * a + e * b" by (simp add: algebra_simps)
  have "(1 - e) * lo \<le> (1 - e) * a" "e * lo \<le> e * b"
    "(1 - e) * a \<le> (1 - e) * hi" "e * b \<le> e * hi"
    using assms by (simp_all add: mult_left_mono)
  moreover have "(1 - e) * lo + e * lo = lo" "(1 - e) * hi + e * hi = hi"
    by (simp_all add: algebra_simps)
  ultimately show ?thesis unfolding eq by linarith
qed

lemma easing_unit:
  assumes "startTime a \<le> t"
  shows "0 \<le> easing_at a t \<and> easing_at a t \<le> 1"
proof -
  define q where "q = 1 - min ((t - startTime a) / 1000) 1"
  have q: "0 \<le> q" "q \<le> 1" using assms by (simp_all add: q_def min_def)
  have "0 \<le> q ^ 3" using q by simp
  moreover have "q ^ 3 \<le> 1" using q by (simp add: power_le_one)
  moreover have "easing_at a t = 1 - q ^ 3" by (simp add: easing_at_def q_def Let_def)
  ultimately show ?thesis by simp
qed

lemma navigateToStar_start:
  "startZoom (navigateToStar s st p) = zoom s"
  "startScale (navigateToStar s st p) = scale s"
  "startTime (navigateToStar s st p) = p"
  by (simp_all add: navigateToStar_def Let_def split: option.split)

lemma navigate_at_limits:
  "navigateToStar at_limits (catalog_star ''s'' 0 0) 1000 = from_limits"
  by (simp add: at_limits_def constructed_def navigateToStar_def Let_def catalog_star_def
      from_limits_def)

lemma animate_zoom_scale:
  "frame_zoom (animate s a t d) = startZoom a + (2 - startZoom a) * easing_at a t"
  "frame_scale (animate s a t d) = startScale a + (1 - startScale a) * easing_at a t"
  by (simp_all add: animate_def frame_zoom_def frame_scale_def Let_def render_view
      updateMatrices_view split: option.split prod.split)

text \<open>
  The wheel listener keeps zoom within \<open>[0.1, 5.0]\<close> and scale within \<open>[0.1, 10.0]\<close>
  in either mode. So does a frame of a navigation animation when its timestamp is not
  earlier than the clock reading of the set-up, also on the path with undefined pan
  targets.
\<close>

lemma wheel_keeps_ranges: "view_ok s \<Longrightarrow> view_ok (wheel s e)"
  by (auto simp add: view_ok_def wheel_def Let_def render_view max_def min_def)

lemma animate_keeps_ranges_from_start:
  assumes "view_ok s" and "p \<le> t"
  shows "frame_view_ok (animate s' (navigateToStar s st p) t d)"
proof -
  define a where "a = navigateToStar s st p"
  have st: "startZoom a = zoom s" "startScale a = scale s" "startTime a = p"
    by (simp_all add: a_def navigateToStar_start)
  have e: "0 \<le> easing_at a t" "easing_at a t \<le> 1"
    using easing_unit [of a t] assms(2) st by simp_all
  have z: "0.1 \<le> startZoom a" "startZoom a \<le> 5"
    "0.1 \<le> startScale a" "startScale a \<le> 10"
    using assms(1) st by (simp_all add: view_ok_def)
  have "0.1 \<le> startZoom a + (2 - startZoom a) * easing_at a t
      \<and> startZoom a + (2 - startZoom a) * easing_at a t \<le> 5"
    using between_endpoints [OF e z(1) z(2), of 2] by simp
  moreover have "0.1 \<le> startScale a + (1 - startScale a) * easing_at a t
      \<and> startScale a + (1 - startScale a) * easing_at a t \<le> 10"
    using between_endpoints [OF e z(3) z(4), of 1] by simp
  ultimately show ?thesis
    unfolding a_def [symmetric] by (simp add: frame_view_ok_def animate_zoom_scale)
qed

text \<open>
  Claim C8. The animation frame bounds its progress from above only
  (\<open>Math.min(elapsed / duration, 1)\<close>) and stores the interpolated zoom and scale without
  the clamp that the wheel listener applies. A frame whose timestamp (990) is earlier than
  the clock reading of the set-up (1000) has a negative progress: started from zoom 0.1 and
  scale 10, both within their ranges, it leaves zoom 0.0424281 and scale 10.272709, both
  outside.
\<close>

theorem animate_early_frame_leaves_range:
  "view_ok at_limits
   \<and> navigateToStar at_limits (catalog_star ''s'' 0 0) 1000 = from_limits
   \<and> frame_zoom (animate at_limits from_limits 990 (at_time 0 0 0 0)) = 0.0424281
   \<and> frame_scale (animate at_limits from_limits 990 (at_time 0 0 0 0)) = 10.272709
   \<and> \<not> frame_view_ok (animate at_limits from_limits 990 (at_time 0 0 0 0))"
proof -
  have e: "easing_at from_limits 990 = - 0.030301"
    by (simp add: easing_at_def from_limits_def Let_def power3_eq_cube)
  have z: "frame_zoom (animate at_limits from_limits 990 (at_time 0 0 0 0)) = 0.0424281"
    by (simp add: animate_zoom_scale e) (simp add: from_limits_def)
  have c: "frame_scale (animate at_limits from_limits 990 (at_time 0 0 0 0)) = 10.272709"
    by (simp add: animate_zoom_scale e) (simp add: from_limits_def)
  have v: "view_ok at_limits"
    by (simp add: view_ok_def at_limits_def constructed_def)
  show ?thesis
    using v navigate_at_limits z c by (simp add: frame_view_ok_def)
qed

section \<open>Sidereal rotation\<close>

text \<open>
  Claim C1. The rotated right ascension is \<open>(ra \<sqdot> 15 - lst + 360) % 360\<close> with
  \<open>lst\<close> the decimal UTC hours times 15 plus the observer longitude. The remainder keeps
  the sign of its dividend, so the value is not always in \<open>[0, 360)\<close>: for an observer
  at longitude 155 at 23:00:00.000 UTC the local sidereal time is 500 degrees and a star
  of right ascension 0 gets the rotated right ascension -140.
\<close>

theorem starRA_negative:
  "lst ((constructed 800 600)\<lparr>longitude := 155\<rparr>) (at_time 23 0 0 0) = 500
   \<and> starRA ((constructed 800 600)\<lparr>longitude := 155\<rparr>) (at_time 23 0 0 0)
        (catalog_star ''s'' 0 0) = - 140"
  by (simp add: starRA_def lst_def totalHours_def at_time_def catalog_star_def
      constructed_def js_rem_def)

section \<open>Flat projections\<close>

text \<open>
  Claim C7. \<open>equatorialToStereographic\<close> divides by \<open>1 + cos(dec) \<sqdot> cos(ra)\<close> with no
  guard. At right ascension 12 h and declination 0 that denominator is zero, so the
  result is not a finite coordinate triple; the catalog pipeline reaches this input for
  a star at 12 h, 0 degrees seen from longitude 0 at 00:00:00.000 UTC.
\<close>

theorem stereographic_antipode_not_finite:
  "equatorialToStereographic 12 0 = None
   \<and> coords (transformStar greenwich ''stereographic'' (at_time 0 0 0 0)
        (catalog_star ''s'' 12 0)) = None"
proof -
  have a: "equatorialToStereographic 12 0 = None"
    by (simp add: equatorialToStereographic_def js_div_def Let_def)
  have "starRA greenwich (at_time 0 0 0 0) (catalog_star ''s'' 12 0) = 180"
    by (simp add: starRA_def lst_def totalHours_def at_time_def catalog_star_def
        greenwich_def constructed_def js_rem_def)
  then have "coords (transformStar greenwich ''stereographic'' (at_time 0 0 0 0)
        (catalog_star ''s'' 12 0)) = equatorialToStereographic 12 0"
    by (simp add: transformStar_def Let_def catalog_star_def)
  with a show ?thesis by simp
qed

section \<open>A lower bound for pi\<close>

text \<open>
  The clamp constant 1.4835 lies just below 85 degrees in radians; telling the two apart
  needs \<open>pi\<close> to four decimals, taken from Machin's formula.
\<close>

lemma arctan_poly_deriv:
  "((\<lambda>t::real. arctan t - (t - t^3/3 + t^5/5 - t^7/7)) has_real_derivative
      (1 / (1 + t^2) - (1 - t^2 + t^4 - t^6))) (at t)"
  by (rule derivative_eq_intros refl | simp add: inverse_eq_divide)+

lemma arctan_poly_deriv_eq: "1 / (1 + t^2) - (1 - t^2 + t^4 - t^6) = t^8 / (1 + t^2)" for t :: real
proof -
  have nz: "1 + t^2 \<noteq> 0" using zero_le_power2 [of t] by linarith
  have e: "(1 - t^2 + t^4 - t^6) * (1 + t^2) = 1 - t^8" by (simp add: eval_nat_numeral algebra_simps) 
  have "1 / (1 + t^2) - (1 - t^2 + t^4 - t^6) = (1 - (1 - t^2 + t^4 - t^6) * (1 + t^2)) / (1 + t^2)"
    using nz by (simp add: diff_divide_distrib)
  also have "\<dots> = t^8 / (1 + t^2)" by (simp only: e) simp
  finally show ?thesis .
qed

lemma arctan_poly_lower:
  fixes x :: real
  assumes "0 \<le> x"
  shows "x - x^3/3 + x^5/5 - x^7/7 \<le> arctan x"
proof -
  let ?f = "\<lambda>t::real. arctan t - (t - t^3/3 + t^5/5 - t^7/7)"
  have "?f 0 \<le> ?f x"
  proof (rule DERIV_nonneg_imp_nondecreasing [OF assms])
    fix t :: real
    have "0 \<le> t^8 / (1 + t^2)" by (intro divide_nonneg_nonneg) auto
    then have "0 \<le> 1 / (1 + t^2) - (1 - t^2 + t^4 - t^6)"
      by (simp only: arctan_poly_deriv_eq)
    then show "\<exists>y. (?f has_real_derivative y) (at t) \<and> 0 \<le> y"
      using arctan_poly_deriv [of t] by (intro exI conjI)
  qed
  then show ?thesis by simp
qed

lemma self_minus_arctan_deriv:
  "((\<lambda>t::real. t - arctan t) has_real_derivative (1 - 1 / (1 + t^2))) (at t)"
  by (rule derivative_eq_intros refl | simp add: inverse_eq_divide)+

lemma inv_one_plus_sq_le: "1 / (1 + t^2) \<le> (1::real)"
proof -
  have p: "0 < 1 + t^2" using zero_le_power2 [of t] by linarith
  have q: "1 \<le> 1 * (1 + t^2)" using zero_le_power2 [of t] by simp
  show ?thesis using pos_divide_le_eq [OF p, of 1 1] q by blast
qed

lemma arctan_upper_self:
  fixes x :: real
  assumes "0 \<le> x"
  shows "arctan x \<le> x"
proof -
  let ?f = "\<lambda>t::real. t - arctan t"
  have "?f 0 \<le> ?f x"
  proof (rule DERIV_nonneg_imp_nondecreasing [OF assms])
    fix t :: real
    have "0 \<le> 1 - 1 / (1 + t^2)" using inv_one_plus_sq_le [of t] by simp
    then show "\<exists>y. (?f has_real_derivative y) (at t) \<and> 0 \<le> y"
      using self_minus_arctan_deriv [of t] by (intro exI conjI)
  qed
  then show ?thesis by simp
qed

lemma pi_lower: "3.14153 < pi"
proof -
  have a: "(1/5) - (1/5)^3/3 + (1/5)^5/5 - (1/5)^7/7 \<le> arctan (1/5::real)"
    using arctan_poly_lower [of "1/5"] by simp
  have b: "arctan (1/239::real) \<le> 1/239"
    using arctan_upper_self [of "1/239"] by simp
  have "pi = 16 * arctan (1/5) - 4 * arctan (1/239)"
    using machin by simp
  with a b show ?thesis by (simp add: power_divide)
qed

section \<open>The remainder by 360\<close>

lemma js_rem_360_bounds: "- 360 < js_rem a 360 \<and> js_rem a 360 < 360"
proof (cases "0 \<le> a / 360")
  case True
  have "of_int \<lfloor>a / 360\<rfloor> * 360 \<le> a" "a < (of_int \<lfloor>a / 360\<rfloor> + 1) * 360"
    using floor_divide_lower [of 360 a] floor_divide_upper [of 360 a] by simp_all
  then show ?thesis using True by (simp add: js_rem_def algebra_simps)
next
  case False
  have "a \<le> of_int \<lceil>a / 360\<rceil> * 360" "(of_int \<lceil>a / 360\<rceil> - 1) * 360 < a"
    using ceiling_divide_upper [of 360 a] ceiling_divide_lower [of 360 a] by simp_all
  then show ?thesis using False by (simp add: js_rem_def algebra_simps)
qed

lemma js_rem_360_nonneg: "0 \<le> a \<Longrightarrow> 0 \<le> js_rem a 360"
proof -
  assume "0 \<le> a"
  then have "0 \<le> a / 360" by simp
  moreover have "of_int \<lfloor>a / 360\<rfloor> * 360 \<le> a"
    using floor_divide_lower [of 360 a] by simp
  ultimately show ?thesis by (simp add: js_rem_def algebra_simps)
qed

lemma js_rem_360_cong: "\<exists>k::int. js_rem a 360 = a - 360 * of_int k"
  by (auto simp add: js_rem_def)

lemma mercator_normalizedRA_range:
  "0 \<le> mercator_normalizedRA s ra \<and> mercator_normalizedRA s ra < 360"
proof -
  have "0 \<le> js_rem x 360 + 360" for x using js_rem_360_bounds [of x] by simp
  then show ?thesis
    using js_rem_360_nonneg js_rem_360_bounds by (simp add: mercator_normalizedRA_def Let_def)
qed

lemma mercator_normalizedRA_cong:
  "\<exists>k::int. mercator_normalizedRA s ra
      = ra * 15 - (if projectionType s = ''mercator'' then pan_x s * 180 / pi else 0)
        - 360 * of_int k"
proof -
  define x where
    "x = ra * 15 - (if projectionType s = ''mercator'' then pan_x s * 180 / pi else 0)"
  obtain k :: int where k: "js_rem x 360 = x - 360 * of_int k"
    using js_rem_360_cong by blast
  obtain j :: int where j: "js_rem (js_rem x 360 + 360) 360 = js_rem x 360 + 360 - 360 * of_int j"
    using js_rem_360_cong by blast
  have "mercator_normalizedRA s ra = js_rem (js_rem x 360 + 360) 360"
    by (simp add: mercator_normalizedRA_def x_def Let_def)
  then have "mercator_normalizedRA s ra = x - 360 * of_int (k + j - 1)"
    using k j by simp
  then show ?thesis unfolding x_def by blast
qed

section \<open>Mercator\<close>

lemma mercator_decRad_85: "mercator_decRad 85 = 1.4835"
proof -
  have "1.4835 \<le> 85 * pi / 180" using pi_lower by simp
  then show ?thesis by (simp add: mercator_decRad_def min_def max_def)
qed

lemma mercator_decRad_89: "mercator_decRad 89 = 1.4835"
proof -
  have "1.4835 \<le> 89 * pi / 180" using pi_lower by simp
  then show ?thesis by (simp add: mercator_decRad_def min_def max_def)
qed

lemma mercator_tan_arg: "0 < pi / 4 + mercator_decRad dec / 2 \<and> pi / 4 + mercator_decRad dec / 2 < pi / 2"
proof -
  have "- 1.4835 \<le> mercator_decRad dec" "mercator_decRad dec \<le> 1.4835"
    by (simp_all add: mercator_decRad_def)
  then show ?thesis using pi_lower by simp
qed

text \<open>
  Claim C6. \<open>equatorialToMercator\<close> subtracts the pan offset (in degrees) from
  \<open>ra \<sqdot> 15\<close> when Mercator is the active mode and brings the result into
  \<open>[0, 360)\<close> by a multiple of 360; it clamps the declination to \<open>\<plusminus>1.4835\<close>
  radians before \<open>y = ln(tan(\<pi>/4 + dec/2))\<close>, whose argument of \<open>ln\<close> is then
  positive; and for every \<open>ra\<close> and pan the \<open>y\<close> of declination 89 is the \<open>y\<close> of
  declination 85.
\<close>

theorem mercator_clamp:
  "mercator_normalizedRA s ra
      = js_rem (js_rem (ra * 15 - (if projectionType s = ''mercator''
                                  then pan_x s * 180 / pi else 0)) 360 + 360) 360
   \<and> 0 \<le> mercator_normalizedRA s ra \<and> mercator_normalizedRA s ra < 360
   \<and> (\<exists>k::int. mercator_normalizedRA s ra
          = ra * 15 - (if projectionType s = ''mercator'' then pan_x s * 180 / pi else 0)
            - 360 * of_int k)
   \<and> mercator_decRad dec = max (min (dec * pi / 180) 1.4835) (- 1.4835)
   \<and> equatorialToMercator s ra dec
      = \<lparr>px = (mercator_normalizedRA s ra - 180) * pi / 180,
         py = ln (tan (pi / 4 + mercator_decRad dec / 2)), pz = 0\<rparr>
   \<and> 0 < tan (pi / 4 + mercator_decRad dec / 2)
   \<and> py (equatorialToMercator s ra 89) = py (equatorialToMercator s ra 85)"
proof -
  have "0 < tan (pi / 4 + mercator_decRad dec / 2)"
    using mercator_tan_arg [of dec] by (simp add: tan_gt_zero)
  then show ?thesis
    using mercator_normalizedRA_range [of s ra] mercator_normalizedRA_cong [of s ra]
    by (simp add: equatorialToMercator_def Let_def mercator_decRad_85 mercator_decRad_89)
       (simp add: mercator_normalizedRA_def mercator_decRad_def Let_def)
qed

section \<open>Hammer-Aitoff\<close>

lemma wrap_above_le: "wrap_above a \<le> 360"
proof (induction a rule: wrap_above.induct)
  case (1 a)
  then show ?case by (subst wrap_above.simps) simp
qed

lemma wrap_below_ge: "0 \<le> wrap_below a"
proof (induction a rule: wrap_below.induct)
  case (1 a)
  then show ?case by (subst wrap_below.simps) simp
qed

lemma wrap_below_le: "a \<le> 360 \<Longrightarrow> wrap_below a \<le> 360"
proof (induction a rule: wrap_below.induct)
  case (1 a)
  then show ?case by (subst wrap_below.simps) simp
qed

lemma wrap_id: "0 \<le> a \<Longrightarrow> a \<le> 360 \<Longrightarrow> wrap_below (wrap_above a) = a"
  by (subst wrap_above.simps, subst wrap_below.simps) simp

lemma times_pi_mono: "a \<le> b \<Longrightarrow> a * pi \<le> b * pi"
  by (simp add: mult_right_mono)

lemma times_pi_strict: "a < b \<Longrightarrow> a * pi < b * pi"
  by simp

lemma hammer_alpha_unrotated:
  assumes "projectionType s \<noteq> ''hammer'' \<or> hammerRotation s = 0"
  shows "- pi / 2 \<le> hammer_alphaPrime s ra \<and> hammer_alphaPrime s ra < pi / 2"
proof -
  define n where "n = wrap_below (wrap_above (ra * 15))"
  have n: "0 \<le> n" "n \<le> 360"
    using wrap_below_ge wrap_below_le [OF wrap_above_le] by (simp_all add: n_def)
  have hn: "hammer_normalizedRA s ra = n"
    using assms by (auto simp add: hammer_normalizedRA_def n_def Let_def)
  have "0 \<le> js_rem (n + 180) 360" "js_rem (n + 180) 360 < 360"
    using js_rem_360_nonneg [of "n + 180"] js_rem_360_bounds [of "n + 180"] n by simp_all
  then have r: "- 180 \<le> js_rem (n + 180) 360 - 180" "js_rem (n + 180) 360 - 180 < 180"
    by simp_all
  have "- 180 * pi \<le> (js_rem (n + 180) 360 - 180) * pi"
    "(js_rem (n + 180) 360 - 180) * pi < 180 * pi"
    using times_pi_mono [OF r(1)] times_pi_strict [OF r(2)] by blast+
  then show ?thesis by (simp add: hammer_alphaPrime_def hn Let_def)
qed

lemma hammer_radicand_nonneg: "0 \<le> 1 + cos a * cos b" for a b :: real
proof -
  have "\<bar>cos a * cos b\<bar> \<le> 1 * 1"
    unfolding abs_mult by (rule mult_mono) simp_all
  then show ?thesis by (simp add: abs_le_iff)
qed

lemma hammer_denom_ge_one:
  assumes "projectionType s \<noteq> ''hammer'' \<or> hammerRotation s = 0"
    and "- 90 \<le> dec" and "dec \<le> 90"
  shows "1 \<le> hammer_denom s ra dec"
proof -
  have "0 \<le> cos (hammer_alphaPrime s ra)"
    using hammer_alpha_unrotated [OF assms(1), of ra] by (intro cos_ge_zero) simp_all
  moreover have "0 \<le> cos (dec * pi / 180)"
  proof (rule cos_ge_zero)
    have "- 90 * pi \<le> dec * pi" "dec * pi \<le> 90 * pi"
      using times_pi_mono [OF assms(2)] times_pi_mono [OF assms(3)] by blast+
    then show "- (pi / 2) \<le> dec * pi / 180" "dec * pi / 180 \<le> pi / 2" by simp_all
  qed
  ultimately have "0 \<le> cos (dec * pi / 180) * cos (hammer_alphaPrime s ra)" by simp
  then show ?thesis by (simp add: hammer_denom_def Let_def)
qed

lemma hammer_alpha_12: "hammer_alphaPrime hammer_example 12 = - pi / 2"
proof -
  have "hammer_normalizedRA hammer_example 12 = 180"
    by (simp add: hammer_normalizedRA_def hammer_example_def constructed_def wrap_id)
  then show ?thesis by (simp add: hammer_alphaPrime_def js_rem_def Let_def)
qed

lemma hammer_alpha_0: "hammer_alphaPrime hammer_example 0 = 0"
proof -
  have "hammer_normalizedRA hammer_example 0 = 0"
    by (simp add: hammer_normalizedRA_def hammer_example_def constructed_def wrap_id)
  then show ?thesis by (simp add: hammer_alphaPrime_def js_rem_def Let_def)
qed

lemma hammer_denom_12_0: "hammer_denom hammer_example 12 0 = 1"
  by (simp add: hammer_denom_def hammer_alpha_12 Let_def)

lemma hammer_denom_0_180: "hammer_denom hammer_example 0 180 = 0"
  by (simp add: hammer_denom_def hammer_alpha_0 Let_def)

text \<open>
  Claim C2 as stated fails: at right ascension 12 h (180 degrees) and declination 0 the
  denominator of \<open>equatorialToHammer\<close> is 1, not 0, and the result is the point
  \<open>(-2\<surd>2, 0, 0)\<close> on the rim of the map, not the origin.
\<close>

theorem hammer_12h_counterexample:
  "hammer_denom hammer_example 12 0 = 1
   \<and> equatorialToHammer hammer_example 12 0 = \<lparr>px = - (2 * sqrt 2), py = 0, pz = 0\<rparr>
   \<and> equatorialToHammer hammer_example 12 0 \<noteq> \<lparr>px = 0, py = 0, pz = 0\<rparr>"
  by (simp add: equatorialToHammer_def hammer_denom_12_0 hammer_alpha_12 Let_def)

text \<open>
  Claim C2, as the code has it. \<open>equatorialToHammer\<close> returns the origin whenever its
  denominator \<open>sqrt(1 + cos(dec) \<sqdot> cos(\<alpha>'))\<close> is 0, with \<open>\<alpha>'\<close> half the normalised
  and rotated right ascension, and otherwise \<open>x = 2\<surd>2 \<sqdot> cos(dec) \<sqdot> sin(\<alpha>') / denom\<close>
  and \<open>y = \<surd>2 \<sqdot> sin(dec) / denom\<close>. The radicand is never negative. Without a
  Hammer rotation and for a declination within \<open>[-90, 90]\<close> the denominator is at
  least 1, so the guard is only met outside that range (as at \<open>ra = 0\<close>, \<open>dec = 180\<close>).
\<close>

theorem equatorialToHammer_cases:
  "hammer_denom s ra dec = sqrt (1 + cos (dec * pi / 180) * cos (hammer_alphaPrime s ra))
   \<and> 0 \<le> 1 + cos (dec * pi / 180) * cos (hammer_alphaPrime s ra)
   \<and> (hammer_denom s ra dec = 0 \<longrightarrow>
        equatorialToHammer s ra dec = \<lparr>px = 0, py = 0, pz = 0\<rparr>)
   \<and> (hammer_denom s ra dec \<noteq> 0 \<longrightarrow>
        equatorialToHammer s ra dec
          = \<lparr>px = 2 * sqrt 2 * cos (dec * pi / 180) * sin (hammer_alphaPrime s ra)
                   / hammer_denom s ra dec,
             py = sqrt 2 * sin (dec * pi / 180) / hammer_denom s ra dec,
             pz = 0\<rparr>)
   \<and> ((projectionType s \<noteq> ''hammer'' \<or> hammerRotation s = 0) \<and> - 90 \<le> dec \<and> dec \<le> 90
        \<longrightarrow> 1 \<le> hammer_denom s ra dec)"
  using hammer_radicand_nonneg [of "dec * pi / 180" "hammer_alphaPrime s ra"]
    hammer_denom_ge_one [of s dec ra]
  by (simp add: equatorialToHammer_def Let_def) (simp add: hammer_denom_def Let_def)

theorem equatorialToHammer_cases_witness:
  "hammer_denom hammer_example 0 180 = 0
   \<and> equatorialToHammer hammer_example 0 180 = \<lparr>px = 0, py = 0, pz = 0\<rparr>
   \<and> hammer_denom hammer_example 12 0 \<noteq> 0
   \<and> hammerRotation hammer_example = 0 \<and> (- 90::real) \<le> 0 \<and> (0::real) \<le> 90
   \<and> 1 \<le> hammer_denom hammer_example 12 0
   \<and> equatorialToHammer hammer_example 12 0
       = \<lparr>px = 2 * sqrt 2 * cos (0 * pi / 180) * sin (hammer_alphaPrime hammer_example 12)
                / hammer_denom hammer_example 12 0,
          py = sqrt 2 * sin (0 * pi / 180) / hammer_denom hammer_example 12 0,
          pz = 0\<rparr>"
proof -
  have r: "hammerRotation hammer_example = 0"
    by (simp add: hammer_example_def constructed_def)
  show ?thesis
    using r hammer_denom_0_180 hammer_denom_12_0
      equatorialToHammer_cases [of hammer_example 0 180]
      equatorialToHammer_cases [of hammer_example 12 0]
    by simp
qed

section \<open>Segment suppression\<close>

lemma nx_negative: "0 < w \<Longrightarrow> (x / w * 2 - 1 < 0) = (x < w / 2)" for w x :: real
  by (simp add: field_simps)

lemma nx_positive: "0 < w \<Longrightarrow> (0 < x / w * 2 - 1) = (w / 2 < x)" for w x :: real
  by (simp add: field_simps)

lemma opposite_halves_iff:
  assumes "0 < w"
  shows "((sx a / w * 2 - 1) * (sx b / w * 2 - 1) < 0) = opposite_halves w a b"
  unfolding mult_less_0_iff nx_negative [OF assms] nx_positive [OF assms] opposite_halves_def
  by blast

lemma shouldDraw_hammer:
  "shouldDraw ''hammer'' w h a b
     = (\<not> (norm_radius w h a > 1.15 \<or> norm_radius w h b > 1.15
           \<or> pixel_length a b > 0.4 * w
           \<or> ((sx a / w * 2 - 1) * (sx b / w * 2 - 1) < 0 \<and> \<bar>sx b - sx a\<bar> > 0.4 * w)))"
  by (simp add: shouldDraw_def Let_def norm_radius_def pixel_length_def power2_eq_square
      mult.commute)

lemma shouldDraw_mercator:
  "shouldDraw ''mercator'' w h a b = (\<not> \<bar>sx b - sx a\<bar> > 0.8 * w)"
  by (simp add: shouldDraw_def Let_def mult.commute)

lemma shouldDraw_other:
  "type \<noteq> ''hammer'' \<Longrightarrow> type \<noteq> ''mercator'' \<Longrightarrow> shouldDraw type w h a b"
  by (simp add: shouldDraw_def Let_def)

lemma suppress_iff:
  assumes "0 < w"
  shows "(\<not> shouldDraw type w h a b) = spec_suppress type w h a b"
proof (cases "type = ''hammer''")
  case True
  show ?thesis
    unfolding True shouldDraw_hammer opposite_halves_iff [OF assms] spec_suppress_def
    by simp
next
  case False
  show ?thesis
  proof (cases "type = ''mercator''")
    case True
    then show ?thesis by (simp add: shouldDraw_mercator spec_suppress_def)
  next
    case False
    with \<open>type \<noteq> ''hammer''\<close> show ?thesis
      by (simp add: shouldDraw_other spec_suppress_def)
  qed
qed

lemma dx_le_length: "\<bar>sx b - sx a\<bar> \<le> pixel_length a b"
proof -
  have "sqrt ((sx b - sx a)\<^sup>2) \<le> sqrt ((sx b - sx a)\<^sup>2 + (sy b - sy a)\<^sup>2)"
    by (rule real_sqrt_le_mono) simp
  then show ?thesis by (simp add: pixel_length_def)
qed

lemma hammer_connects:
  assumes "0 < w" and "norm_radius w h a \<le> 1.15" and "norm_radius w h b \<le> 1.15"
    and "pixel_length a b \<le> 0.4 * w"
  shows "shouldDraw ''hammer'' w h a b"
proof -
  have "\<bar>sx b - sx a\<bar> \<le> 0.4 * w" using dx_le_length [of b a] assms(4) by linarith
  then show ?thesis using assms by (simp add: shouldDraw_hammer)
qed

lemma draw_pos_next:
  "draw_pos type w h \<lparr>is_first = False, last_pos = Some a, cmds = c\<rparr> (Some b)
     = (if shouldDraw type w h a b
        then \<lparr>is_first = False, last_pos = Some b, cmds = c @ [LineTo (sx b) (sy b)]\<rparr>
        else \<lparr>is_first = False, last_pos = Some b,
               cmds = c @ [Stroke, BeginPath, MoveTo (sx b) (sy b)]\<rparr>)"
  by (simp add: draw_pos_def Let_def)

lemma norm_radius_mid_height:
  "norm_radius 1000 1000 \<lparr>sx = x, sy = 500\<rparr> = \<bar>x / 1000 * 2 - 1\<bar>"
  by (simp add: norm_radius_def)

lemma pixel_length_level:
  "pixel_length \<lparr>sx = x, sy = v\<rparr> \<lparr>sx = x', sy = v\<rparr> = \<bar>x' - x\<bar>"
  by (simp add: pixel_length_def)

text \<open>
  Claim C5 as stated fails in its last part: two points of normalised radius 0.5 each,
  half a canvas width apart, are not connected under Hammer mode, because the segment is
  longer than 0.4 times the canvas width.
\<close>

theorem half_radius_counterexample:
  "norm_radius 1000 1000 \<lparr>sx = 250, sy = 500\<rparr> = 0.5
   \<and> norm_radius 1000 1000 \<lparr>sx = 750, sy = 500\<rparr> = 0.5
   \<and> \<not> shouldDraw ''hammer'' 1000 1000 \<lparr>sx = 250, sy = 500\<rparr> \<lparr>sx = 750, sy = 500\<rparr>
   \<and> draw_line ''hammer'' 1000 1000
         [Some \<lparr>sx = 250, sy = 500\<rparr>, Some \<lparr>sx = 750, sy = 500\<rparr>]
       = [BeginPath, MoveTo 250 500, Stroke, BeginPath, MoveTo 750 500, Stroke]"
proof -
  have n: "\<not> shouldDraw ''hammer'' 1000 1000 \<lparr>sx = 250, sy = 500\<rparr> \<lparr>sx = 750, sy = 500\<rparr>"
    by (simp add: shouldDraw_hammer norm_radius_mid_height pixel_length_level)
  then show ?thesis
    by (simp add: norm_radius_mid_height draw_line_def draw_pos_def Let_def)
qed

text \<open>
  Claim C5, as the code has it, on a canvas of positive width. Between two consecutive
  points with a screen position \<open>drawGrid\<close> starts a new sub-path instead of a line
  exactly when the rule of the specification holds: under Hammer, an endpoint of normalised
  radius above 1.15, or a pixel length above 0.4 times the canvas width, or endpoints in
  opposite horizontal halves with \<open>|dx|\<close> above 0.4 times the width; under Mercator,
  \<open>|dx|\<close> above 0.8 times the width; in no other mode. Radii 1.2 and 1.2 are suppressed.
  Radii of exactly 1.15, and radii 0.5 and 0.5, are connected when the pixel length is
  at most 0.4 times the width; a Mercator segment with \<open>|dx|\<close> exactly 0.8 times the
  width is connected.
\<close>

theorem clip_rule:
  assumes "0 < w"
  shows "(\<not> shouldDraw type w h a b) = spec_suppress type w h a b
   \<and> draw_pos type w h \<lparr>is_first = False, last_pos = Some a, cmds = c\<rparr> (Some b)
       = (if spec_suppress type w h a b
          then \<lparr>is_first = False, last_pos = Some b,
                 cmds = c @ [Stroke, BeginPath, MoveTo (sx b) (sy b)]\<rparr>
          else \<lparr>is_first = False, last_pos = Some b, cmds = c @ [LineTo (sx b) (sy b)]\<rparr>)
   \<and> (type \<noteq> ''hammer'' \<and> type \<noteq> ''mercator'' \<longrightarrow> shouldDraw type w h a b)
   \<and> (norm_radius w h a = 1.2 \<and> norm_radius w h b = 1.2
        \<longrightarrow> \<not> shouldDraw ''hammer'' w h a b)
   \<and> (norm_radius w h a = 1.15 \<and> norm_radius w h b = 1.15 \<and> pixel_length a b \<le> 0.4 * w
        \<longrightarrow> shouldDraw ''hammer'' w h a b)
   \<and> (norm_radius w h a = 0.5 \<and> norm_radius w h b = 0.5 \<and> pixel_length a b \<le> 0.4 * w
        \<longrightarrow> shouldDraw ''hammer'' w h a b)
   \<and> (\<bar>sx b - sx a\<bar> = 0.8 * w \<longrightarrow> shouldDraw ''mercator'' w h a b)"
proof -
  have s: "(\<not> shouldDraw type w h a b) = spec_suppress type w h a b"
    by (rule suppress_iff [OF assms])
  have d: "draw_pos type w h \<lparr>is_first = False, last_pos = Some a, cmds = c\<rparr> (Some b)
       = (if spec_suppress type w h a b
          then \<lparr>is_first = False, last_pos = Some b,
                 cmds = c @ [Stroke, BeginPath, MoveTo (sx b) (sy b)]\<rparr>
          else \<lparr>is_first = False, last_pos = Some b, cmds = c @ [LineTo (sx b) (sy b)]\<rparr>)"
    unfolding s [symmetric] draw_pos_next by simp
  have o: "type \<noteq> ''hammer'' \<and> type \<noteq> ''mercator'' \<longrightarrow> shouldDraw type w h a b"
    by (simp add: shouldDraw_other)
  have f: "norm_radius w h a = 1.2 \<and> norm_radius w h b = 1.2
        \<longrightarrow> \<not> shouldDraw ''hammer'' w h a b"
    by (simp add: shouldDraw_hammer)
  have e: "norm_radius w h a = 1.15 \<and> norm_radius w h b = 1.15 \<and> pixel_length a b \<le> 0.4 * w
        \<longrightarrow> shouldDraw ''hammer'' w h a b"
    using hammer_connects [OF assms, of h a b] by simp
  have g: "norm_radius w h a = 0.5 \<and> norm_radius w h b = 0.5 \<and> pixel_length a b \<le> 0.4 * w
        \<longrightarrow> shouldDraw ''hammer'' w h a b"
    using hammer_connects [OF assms, of h a b] by simp
  have m: "\<bar>sx b - sx a\<bar> = 0.8 * w \<longrightarrow> shouldDraw ''mercator'' w h a b"
    by (simp add: shouldDraw_mercator)
  from s d o f e g m show ?thesis by blast
qed

theorem clip_rule_witness:
  "(0::real) < 1000
   \<and> norm_radius 1000 1000 \<lparr>sx = 250, sy = 500\<rparr> = 0.5
   \<and> norm_radius 1000 1000 \<lparr>sx = 750, sy = 500\<rparr> = 0.5
   \<and> spec_suppress ''hammer'' 1000 1000 \<lparr>sx = 250, sy = 500\<rparr> \<lparr>sx = 750, sy = 500\<rparr>
   \<and> norm_radius 1000 1000 \<lparr>sx = 1100, sy = 500\<rparr> = 1.2
   \<and> \<not> shouldDraw ''hammer'' 1000 1000 \<lparr>sx = 1100, sy = 500\<rparr> \<lparr>sx = 1100, sy = 500\<rparr>
   \<and> norm_radius 1000 1000 \<lparr>sx = 1075, sy = 500\<rparr> = 1.15
   \<and> pixel_length \<lparr>sx = 1075, sy = 500\<rparr> \<lparr>sx = 1075, sy = 500\<rparr> \<le> 0.4 * 1000
   \<and> shouldDraw ''hammer'' 1000 1000 \<lparr>sx = 1075, sy = 500\<rparr> \<lparr>sx = 1075, sy = 500\<rparr>
   \<and> norm_radius 1000 1000 \<lparr>sx = 750, sy = 500\<rparr> = 0.5
   \<and> pixel_length \<lparr>sx = 750, sy = 500\<rparr> \<lparr>sx = 750, sy = 500\<rparr> \<le> 0.4 * 1000
   \<and> shouldDraw ''hammer'' 1000 1000 \<lparr>sx = 750, sy = 500\<rparr> \<lparr>sx = 750, sy = 500\<rparr>
   \<and> \<bar>sx \<lparr>sx = 900, sy = 500\<rparr> - sx \<lparr>sx = 100, sy = 500\<rparr>\<bar> = 0.8 * 1000
   \<and> shouldDraw ''mercator'' 1000 1000 \<lparr>sx = 100, sy = 500\<rparr> \<lparr>sx = 900, sy = 500\<rparr>
   \<and> shouldDraw ''stereographic'' 1000 1000 \<lparr>sx = 100, sy = 500\<rparr> \<lparr>sx = 900, sy = 500\<rparr>"
proof -
  have w: "(0::real) < 1000" by simp
  show ?thesis
    using clip_rule [OF w, of "''hammer''" 1000 "\<lparr>sx = 250, sy = 500\<rparr>" "\<lparr>sx = 750, sy = 500\<rparr>"]
      clip_rule [OF w, of "''hammer''" 1000 "\<lparr>sx = 1100, sy = 500\<rparr>" "\<lparr>sx = 1100, sy = 500\<rparr>"]
      clip_rule [OF w, of "''hammer''" 1000 "\<lparr>sx = 1075, sy = 500\<rparr>" "\<lparr>sx = 1075, sy = 500\<rparr>"]
      clip_rule [OF w, of "''hammer''" 1000 "\<lparr>sx = 750, sy = 500\<rparr>" "\<lparr>sx = 750, sy = 500\<rparr>"]
      clip_rule [OF w, of "''mercator''" 1000 "\<lparr>sx = 100, sy = 500\<rparr>" "\<lparr>sx = 900, sy = 500\<rparr>"]
      clip_rule [OF w, of "''stereographic''" 1000 "\<lparr>sx = 100, sy = 500\<rparr>" "\<lparr>sx = 900, sy = 500\<rparr>"]
    by (simp add: norm_radius_mid_height pixel_length_level spec_suppress_def)
qed

section \<open>The search loop of the click listener\<close>

lemma nearest_at_later:
  assumes "nearest_at s mx my xs b p"
    and "\<And>q. projected_of s x = Some q \<Longrightarrow> pick_distance mx my p \<le> pick_distance mx my q"
  shows "nearest_at s mx my (xs @ [x]) b p"
proof -
  from assms(1) obtain pre post where h:
    "xs = pre @ b # post" "projected_of s b = Some p"
    "\<forall>u\<in>set pre. \<forall>q. projected_of s u = Some q
        \<longrightarrow> pick_distance mx my p < pick_distance mx my q"
    "\<forall>u\<in>set post. \<forall>q. projected_of s u = Some q
        \<longrightarrow> pick_distance mx my p \<le> pick_distance mx my q"
    unfolding nearest_at_def by blast
  have a: "xs @ [x] = pre @ b # (post @ [x])" using h(1) by simp
  have b: "\<forall>u\<in>set (post @ [x]). \<forall>q. projected_of s u = Some q
        \<longrightarrow> pick_distance mx my p \<le> pick_distance mx my q"
    using h(4) assms(2) by simp
  show ?thesis
    unfolding nearest_at_def
    by (rule exI [of _ pre], rule exI [of _ "post @ [x]"]) (use a b h(2,3) in blast)
qed

lemma nearest_at_new:
  assumes "projected_of s x = Some q"
    and "\<forall>u\<in>set xs. \<forall>q'. projected_of s u = Some q'
           \<longrightarrow> pick_distance mx my q < pick_distance mx my q'"
  shows "nearest_at s mx my (xs @ [x]) x q"
  unfolding nearest_at_def
  by (rule exI [of _ xs], rule exI [of _ "[]"]) (use assms in simp)

lemma nearest_at_all_above:
  assumes "nearest_at s mx my xs b p" and "d < pick_distance mx my p"
  shows "\<forall>u\<in>set xs. \<forall>q'. projected_of s u = Some q' \<longrightarrow> d < pick_distance mx my q'"
proof -
  from assms(1) obtain pre post where h:
    "xs = pre @ b # post" "projected_of s b = Some p"
    "\<forall>u\<in>set pre. \<forall>q. projected_of s u = Some q
        \<longrightarrow> pick_distance mx my p < pick_distance mx my q"
    "\<forall>u\<in>set post. \<forall>q. projected_of s u = Some q
        \<longrightarrow> pick_distance mx my p \<le> pick_distance mx my q"
    unfolding nearest_at_def by blast
  show ?thesis
  proof (intro ballI allI impI)
    fix u q' assume u: "u \<in> set xs" "projected_of s u = Some q'"
    then consider "u \<in> set pre" | "u = b" | "u \<in> set post" using h(1) by auto
    then show "d < pick_distance mx my q'"
    proof cases
      case 1 then show ?thesis using h(3) u(2) assms(2) by fastforce
    next
      case 2 then show ?thesis using h(2) u(2) assms(2) by simp
    next
      case 3 then show ?thesis using h(4) u(2) assms(2) by fastforce
    qed
  qed
qed

lemma acc_ok_step:
  assumes "acc_ok s mx my xs acc"
  shows "acc_ok s mx my (xs @ [x]) (pick_step s mx my acc x)"
proof (cases "closestStar acc")
  case None
  with assms have n: "minDistance acc = None" "\<forall>u\<in>set xs. projected_of s u = None"
    by (simp_all add: acc_ok_def)
  show ?thesis
  proof (cases "projected_of s x")
    case N: None
    with n None show ?thesis by (simp add: acc_ok_def pick_step_def)
  next
    case (Some q)
    have "nearest_at s mx my (xs @ [x]) x q"
      by (rule nearest_at_new [OF Some]) (use n(2) in simp)
    then show ?thesis using Some n(1) by (simp add: acc_ok_def pick_step_def Let_def)
  qed
next
  case (Some b)
  with assms obtain p where h: "closestProjected acc = Some p"
    "minDistance acc = Some (pick_distance mx my p)" "nearest_at s mx my xs b p"
    by (auto simp add: acc_ok_def)
  show ?thesis
  proof (cases "projected_of s x")
    case None
    then have "pick_step s mx my acc x = acc" by (simp add: pick_step_def)
    moreover have "nearest_at s mx my (xs @ [x]) b p"
      by (rule nearest_at_later [OF h(3)]) (simp add: None)
    ultimately show ?thesis using Some h(1,2) by (simp add: acc_ok_def)
  next
    case Q: (Some q)
    show ?thesis
    proof (cases "pick_distance mx my q < pick_distance mx my p")
      case True
      have "nearest_at s mx my (xs @ [x]) x q"
        by (rule nearest_at_new [OF Q]) (rule nearest_at_all_above [OF h(3) True])
      then show ?thesis using Q True h(2) by (simp add: acc_ok_def pick_step_def Let_def)
    next
      case False
      then have "pick_step s mx my acc x = acc"
        using Q h(2) by (simp add: pick_step_def Let_def)
      moreover have "nearest_at s mx my (xs @ [x]) b p"
        by (rule nearest_at_later [OF h(3)]) (use False Q in simp)
      ultimately show ?thesis using Some h(1,2) by (simp add: acc_ok_def)
    qed
  qed
qed

lemma acc_ok_foldl:
  "acc_ok s mx my xs
     (foldl (pick_step s mx my)
        \<lparr>closestStar = None, minDistance = None, closestProjected = None\<rparr> xs)"
proof (induction xs rule: rev_induct)
  case Nil
  show ?case by (simp add: acc_ok_def)
next
  case (snoc x xs)
  then show ?case using acc_ok_step [of s mx my xs _ x] by simp
qed

lemma transformStar_lastClickTime:
  "transformStar (s\<lparr>lastClickTime := v\<rparr>) type t st = transformStar s type t st"
  by (simp add: transformStar_def starRA_def lst_def equatorialToMercator_def
      mercator_normalizedRA_def equatorialToHammer_def hammer_denom_def hammer_alphaPrime_def
      hammer_normalizedRA_def Let_def)

lemma click_candidates_eq:
  "click_candidates s e sts
     = transformStarsForProjection s sts (projectionType s) (click_time s e)"
  by (simp add: click_candidates_def transformStarsForProjection_def Let_def
      transformStar_lastClickTime)

lemma nearest_first:
  assumes "nearest_at (click_prepare s e) (clientX e - rect_left e) (clientY e - rect_top e)
             xs b p"
  shows "first_nearest s e xs b
           (pick_distance (clientX e - rect_left e) (clientY e - rect_top e) p)"
proof -
  from assms obtain pre post where h:
    "xs = pre @ b # post" "projected_of (click_prepare s e) b = Some p"
    "\<forall>u\<in>set pre. \<forall>q. projected_of (click_prepare s e) u = Some q
        \<longrightarrow> pick_distance (clientX e - rect_left e) (clientY e - rect_top e) p
            < pick_distance (clientX e - rect_left e) (clientY e - rect_top e) q"
    "\<forall>u\<in>set post. \<forall>q. projected_of (click_prepare s e) u = Some q
        \<longrightarrow> pick_distance (clientX e - rect_left e) (clientY e - rect_top e) p
            \<le> pick_distance (clientX e - rect_left e) (clientY e - rect_top e) q"
    unfolding nearest_at_def by blast
  show ?thesis
    unfolding first_nearest_def cand_distance_def
    by (rule exI [of _ pre], rule exI [of _ post]) (use h in auto)
qed

lemma first_nearest_all:
  assumes "first_nearest s e xs b d" and "u \<in> set xs" and "cand_distance s e u = Some d'"
  shows "d \<le> d'"
proof -
  from assms(1) obtain pre post where h:
    "xs = pre @ b # post" "cand_distance s e b = Some d"
    "\<forall>u\<in>set pre. \<forall>d'. cand_distance s e u = Some d' \<longrightarrow> d < d'"
    "\<forall>u\<in>set post. \<forall>d'. cand_distance s e u = Some d' \<longrightarrow> d \<le> d'"
    unfolding first_nearest_def by blast
  from assms(2) h(1) consider "u \<in> set pre" | "u = b" | "u \<in> set post" by auto
  then show ?thesis
  proof cases
    case 1 then show ?thesis using h(3) assms(3) by fastforce
  next
    case 2 then show ?thesis using h(2) assms(3) by simp
  next
    case 3 then show ?thesis using h(4) assms(3) by fastforce
  qed
qed

lemma click_search_ok:
  "acc_ok (click_prepare s e) (clientX e - rect_left e) (clientY e - rect_top e)
     (click_candidates s e sts) (click_search s e sts)"
  unfolding click_search_def Let_def by (rule acc_ok_foldl)

lemma click_pick_cases:
  assumes "stars s = Some sts"
  shows "case click_pick s e of
           Some b \<Rightarrow> \<exists>d. first_nearest s e (click_candidates s e sts) b d \<and> d < 10
         | None \<Rightarrow> \<forall>u\<in>set (click_candidates s e sts). \<forall>d.
                      cand_distance s e u = Some d \<longrightarrow> 10 \<le> d"
proof (cases "closestStar (click_search s e sts)")
  case None
  with click_search_ok [of s e sts]
  have n: "minDistance (click_search s e sts) = None"
    "\<forall>u\<in>set (click_candidates s e sts). projected_of (click_prepare s e) u = None"
    by (simp_all add: acc_ok_def)
  have "click_pick s e = None" using assms n(1) by (simp add: click_pick_def is_hit_def)
  then show ?thesis using n(2) by (simp add: cand_distance_def)
next
  case (Some b)
  with click_search_ok [of s e sts] obtain p where h:
    "closestProjected (click_search s e sts) = Some p"
    "minDistance (click_search s e sts)
       = Some (pick_distance (clientX e - rect_left e) (clientY e - rect_top e) p)"
    "nearest_at (click_prepare s e) (clientX e - rect_left e) (clientY e - rect_top e)
       (click_candidates s e sts) b p"
    by (auto simp add: acc_ok_def)
  define d where "d = pick_distance (clientX e - rect_left e) (clientY e - rect_top e) p"
  have f: "first_nearest s e (click_candidates s e sts) b d"
    unfolding d_def by (rule nearest_first [OF h(3)])
  show ?thesis
  proof (cases "d < 10")
    case True
    then have "click_pick s e = Some b"
      using assms Some h(1,2) by (simp add: click_pick_def is_hit_def threshold_def d_def)
    then show ?thesis using f True by auto
  next
    case False
    then have "click_pick s e = None"
      using assms Some h(1,2) by (simp add: click_pick_def is_hit_def threshold_def d_def)
    moreover have "10 \<le> d'"
      if "u \<in> set (click_candidates s e sts)" "cand_distance s e u = Some d'" for u d'
      using first_nearest_all [OF f that] False by simp
    ultimately show ?thesis by simp
  qed
qed

lemma js_rem_540: "js_rem 540 360 = 180"
  by (simp add: js_rem_def)

lemma js_rem_180: "js_rem 180 360 = 180"
  by (simp add: js_rem_def)

lemma pick_example_fields:
  "projectionType pick_example = ''mercator''" "longitude pick_example = 0"
  "pan_x pick_example = 0" "pan_y pick_example = 0" "scale pick_example = 1"
  "clientWidth pick_example = 800" "clientHeight pick_example = 600"
  "canvas_width pick_example = 800" "canvas_height pick_example = 600"
  "currentRenderTime pick_example = Some (at_time 0 0 0 0)"
  "lastClickTime pick_example = None"
  by (simp_all add: pick_example_def render_def updateStarData_def setProjection_def
      validTypes_def resize_def updateMatrices_def greenwich_def constructed_def Let_def)

lemma pick_example_stars: "stars pick_example = Some [star_a, star_b]"
  by (simp add: pick_example_def render_def updateStarData_def setProjection_def
      validTypes_def resize_def updateMatrices_def greenwich_def constructed_def Let_def)

lemma mercator_origin:
  "equatorialToMercator s 12 0 = \<lparr>px = 0, py = 0, pz = 0\<rparr>"
  if "projectionType s = ''mercator''" "pan_x s = 0"
  using that
  by (simp add: equatorialToMercator_def mercator_normalizedRA_def mercator_decRad_def Let_def
      js_rem_540 js_rem_180 tan_45)

lemma pick_example_candidates:
  "click_candidates pick_example e [star_a, star_b]
     = [\<lparr>src = star_a, coords = Some \<lparr>px = 0, py = 0, pz = 0\<rparr>\<rparr>,
        \<lparr>src = star_b, coords = Some \<lparr>px = 0, py = 0, pz = 0\<rparr>\<rparr>]"
proof -
  have t: "click_time pick_example e = at_time 0 0 0 0"
    by (simp add: click_time_def pick_example_fields)
  have r: "starRA pick_example (at_time 0 0 0 0) st = 180" if "star_ra st = 12" for st
    using that
    by (simp add: starRA_def lst_def totalHours_def at_time_def pick_example_fields js_rem_540)
  have m: "equatorialToMercator pick_example 12 0 = \<lparr>px = 0, py = 0, pz = 0\<rparr>"
    by (rule mercator_origin) (simp_all add: pick_example_fields)
  have "transformStar pick_example ''mercator'' (at_time 0 0 0 0) st
          = \<lparr>src = st, coords = Some \<lparr>px = 0, py = 0, pz = 0\<rparr>\<rparr>"
    if "star_ra st = 12" "star_dec st = 0" for st
    using that r [of st] m by (simp add: transformStar_def Let_def)
  then show ?thesis
    unfolding click_candidates_eq t
    by (simp add: transformStarsForProjection_def pick_example_fields star_a_def star_b_def
        catalog_star_def)
qed

lemma pick_example_prepare:
  "clip_pos (click_prepare pick_example e) \<lparr>px = a, py = b, pz = c\<rparr>
     = (a / 2, 2 * b / 3, - c, 1)"
  "canvas_width (click_prepare pick_example e) = 800"
  "canvas_height (click_prepare pick_example e) = 600"
  by (simp_all add: click_prepare_def updateMatrices_def pick_example_fields Let_def
      clip_pos_def mat4_create_def mat4_scale_def mat4_translate_def mat4_ortho_def
      vec4_transformMat4_def)

lemma pick_example_projected:
  "projected_of (click_prepare pick_example e)
       \<lparr>src = st, coords = Some \<lparr>px = 0, py = 0, pz = 0\<rparr>\<rparr>
     = Some \<lparr>sx = 400, sy = 300\<rparr>"
  by (simp add: projected_of_def projectPoint_def pick_example_prepare)

lemma sqrt_25: "sqrt 25 = 5"
proof -
  have "sqrt (5\<^sup>2) = \<bar>5\<bar>" by (rule real_sqrt_abs)
  then show ?thesis by simp
qed

lemma sqrt_250000: "sqrt 250000 = 500"
proof -
  have "sqrt (500\<^sup>2) = \<bar>500\<bar>" by (rule real_sqrt_abs)
  then show ?thesis by simp
qed

lemma pick_example_search_near:
  "click_search pick_example (pointer_at 403 304 t) [star_a, star_b]
     = \<lparr>closestStar = Some \<lparr>src = star_a, coords = Some \<lparr>px = 0, py = 0, pz = 0\<rparr>\<rparr>,
        minDistance = Some 5, closestProjected = Some \<lparr>sx = 400, sy = 300\<rparr>\<rparr>"
  by (simp add: click_search_def pick_example_candidates Let_def pick_step_def
      pick_example_projected pick_distance_def sqrt_25 pointer_at_def)

lemma pick_example_search_far:
  "click_search pick_example (pointer_at 0 0 t) [star_a, star_b]
     = \<lparr>closestStar = Some \<lparr>src = star_a, coords = Some \<lparr>px = 0, py = 0, pz = 0\<rparr>\<rparr>,
        minDistance = Some 500, closestProjected = Some \<lparr>sx = 400, sy = 300\<rparr>\<rparr>"
  by (simp add: click_search_def pick_example_candidates Let_def pick_step_def
      pick_example_projected pick_distance_def sqrt_250000 pointer_at_def)

lemma pick_example_near:
  "click_pick pick_example (pointer_at 403 304 t)
     = Some \<lparr>src = star_a, coords = Some \<lparr>px = 0, py = 0, pz = 0\<rparr>\<rparr>"
  by (simp add: click_pick_def pick_example_stars pick_example_search_near is_hit_def
      threshold_def)

lemma pick_example_far:
  "click_pick pick_example (pointer_at 0 0 t) = None"
  by (simp add: click_pick_def pick_example_stars pick_example_search_far is_hit_def
      threshold_def)

lemma mercator_at_six:
  "transformStarsForProjection pick_example [star_a] ''mercator'' (at_time 6 0 0 0)
     = [\<lparr>src = star_a, coords = Some \<lparr>px = - pi / 2, py = 0, pz = 0\<rparr>\<rparr>]"
proof -
  have r: "starRA pick_example (at_time 6 0 0 0) star_a = 90"
    by (simp add: starRA_def lst_def totalHours_def at_time_def pick_example_fields js_rem_def
        star_a_def catalog_star_def)
  have n: "mercator_normalizedRA pick_example 6 = 90"
    by (simp add: mercator_normalizedRA_def pick_example_fields js_rem_def Let_def)
  have "equatorialToMercator pick_example 6 0 = \<lparr>px = - pi / 2, py = 0, pz = 0\<rparr>"
    by (simp add: equatorialToMercator_def n mercator_decRad_def Let_def tan_45)
  then show ?thesis
    using r
    by (simp add: transformStarsForProjection_def transformStar_def Let_def star_a_def
        catalog_star_def)
qed

text \<open>
  Claim C4 as stated fails in two places. The stars are transformed at the instant of the
  last render whenever there was one, not at the instant of the click: after a render at
  00:00 UTC a click at 06:00 UTC searches the positions of 00:00, which differ from those
  of 06:00. And a click that hits nothing still changes the renderer: it stores
  \<open>lastClickTime\<close>.
\<close>

theorem click_instant_and_miss_counterexample:
  "currentRenderTime pick_example = Some (at_time 0 0 0 0)
   \<and> ev_date (pointer_at 0 0 (at_time 6 0 0 0)) = at_time 6 0 0 0
   \<and> click_candidates pick_example (pointer_at 0 0 (at_time 6 0 0 0)) [star_a, star_b]
       = transformStarsForProjection pick_example [star_a, star_b] ''mercator''
           (at_time 0 0 0 0)
   \<and> transformStarsForProjection pick_example [star_a] ''mercator'' (at_time 0 0 0 0)
       \<noteq> transformStarsForProjection pick_example [star_a] ''mercator'' (at_time 6 0 0 0)
   \<and> click_pick pick_example (pointer_at 0 0 (at_time 6 0 0 0)) = None
   \<and> lastClickTime pick_example = None
   \<and> lastClickTime (click pick_example (pointer_at 0 0 (at_time 6 0 0 0)))
       = Some (at_time 0 0 0 0)
   \<and> click pick_example (pointer_at 0 0 (at_time 6 0 0 0)) \<noteq> pick_example"
proof -
  have a: "currentRenderTime pick_example = Some (at_time 0 0 0 0)"
    "lastClickTime pick_example = None" "projectionType pick_example = ''mercator''"
    by (simp_all add: pick_example_fields)
  have t: "click_time pick_example e = at_time 0 0 0 0" for e
    by (simp add: click_time_def a)
  have c: "click_candidates pick_example (pointer_at 0 0 (at_time 6 0 0 0)) [star_a, star_b]
       = transformStarsForProjection pick_example [star_a, star_b] ''mercator''
           (at_time 0 0 0 0)"
    by (simp add: click_candidates_eq t a)
  have z: "transformStarsForProjection pick_example [star_a] ''mercator'' (at_time 0 0 0 0)
       = [\<lparr>src = star_a, coords = Some \<lparr>px = 0, py = 0, pz = 0\<rparr>\<rparr>]"
    using pick_example_candidates [of "pointer_at 0 0 (at_time 6 0 0 0)"]
    unfolding click_candidates_eq t a
    by (simp add: transformStarsForProjection_def)
  have d: "transformStarsForProjection pick_example [star_a] ''mercator'' (at_time 0 0 0 0)
       \<noteq> transformStarsForProjection pick_example [star_a] ''mercator'' (at_time 6 0 0 0)"
    unfolding z mercator_at_six by simp
  have l: "lastClickTime (click pick_example (pointer_at 0 0 (at_time 6 0 0 0)))
       = Some (at_time 0 0 0 0)"
    by (simp add: click_def pick_example_stars pick_example_far Let_def click_prepare_def t
        updateMatrices_def)
  then have n: "click pick_example (pointer_at 0 0 (at_time 6 0 0 0)) \<noteq> pick_example"
    using a(2) by auto
  show ?thesis
    using a(1,2) c d pick_example_far l n by (simp add: pointer_at_def)
qed

text \<open>
  Claim C4, as the code has it. With a star list present, the click listener transforms
  the whole list at \<open>currentRenderTime\<close> (at the instant of the click only when nothing
  was rendered yet), projects every star with the freshly computed matrices, and picks
  the first star of the list at the least pixel distance from the pointer, provided that
  distance is below 10. If no star with a screen position is closer than 10 pixels there
  is no hit: the listener then only stores \<open>lastClickTime\<close> and the matrices, and the
  set of active stars is unchanged.
\<close>

theorem click_nearest:
  assumes "stars s = Some sts"
  shows "click_time s e = (case currentRenderTime s of Some t \<Rightarrow> t | None \<Rightarrow> ev_date e)
    \<and> click_candidates s e sts
        = transformStarsForProjection s sts (projectionType s) (click_time s e)
    \<and> (case click_pick s e of
          Some b \<Rightarrow> \<exists>d. first_nearest s e (click_candidates s e sts) b d \<and> d < 10
        | None \<Rightarrow>
            (\<forall>u\<in>set (click_candidates s e sts). \<forall>d.
               cand_distance s e u = Some d \<longrightarrow> 10 \<le> d)
            \<and> click s e = updateMatrices (s\<lparr>lastClickTime := Some (click_time s e)\<rparr>)
            \<and> activeStars (click s e) = activeStars s)"
proof -
  have t: "click_time s e = (case currentRenderTime s of Some t \<Rightarrow> t | None \<Rightarrow> ev_date e)"
    by (simp add: click_time_def)
  have c: "click_candidates s e sts
        = transformStarsForProjection s sts (projectionType s) (click_time s e)"
    by (rule click_candidates_eq)
  have a: "activeStars (updateMatrices (s\<lparr>lastClickTime := v\<rparr>)) = activeStars s" for v
    by (simp add: updateMatrices_def Let_def)
  have p: "case click_pick s e of
          Some b \<Rightarrow> \<exists>d. first_nearest s e (click_candidates s e sts) b d \<and> d < 10
        | None \<Rightarrow>
            (\<forall>u\<in>set (click_candidates s e sts). \<forall>d.
               cand_distance s e u = Some d \<longrightarrow> 10 \<le> d)
            \<and> click s e = updateMatrices (s\<lparr>lastClickTime := Some (click_time s e)\<rparr>)
            \<and> activeStars (click s e) = activeStars s"
  proof (cases "click_pick s e")
    case None
    then have "click s e = updateMatrices (s\<lparr>lastClickTime := Some (click_time s e)\<rparr>)"
      using assms by (simp add: click_def click_prepare_def Let_def)
    then show ?thesis using click_pick_cases [OF assms, of e] None a by simp
  next
    case (Some b)
    then show ?thesis using click_pick_cases [OF assms, of e] by simp
  qed
  from t c p show ?thesis by (intro conjI)
qed

theorem click_nearest_witness:
  "stars pick_example = Some [star_a, star_b]
   \<and> click_time pick_example (pointer_at 403 304 (at_time 6 0 0 0)) = at_time 0 0 0 0
   \<and> click_pick pick_example (pointer_at 403 304 (at_time 6 0 0 0))
       = Some \<lparr>src = star_a, coords = Some \<lparr>px = 0, py = 0, pz = 0\<rparr>\<rparr>
   \<and> (\<exists>d. first_nearest pick_example (pointer_at 403 304 (at_time 6 0 0 0))
             (click_candidates pick_example (pointer_at 403 304 (at_time 6 0 0 0))
                [star_a, star_b])
             \<lparr>src = star_a, coords = Some \<lparr>px = 0, py = 0, pz = 0\<rparr>\<rparr> d \<and> d < 10)
   \<and> click_pick pick_example (pointer_at 0 0 (at_time 6 0 0 0)) = None
   \<and> activeStars (click pick_example (pointer_at 0 0 (at_time 6 0 0 0)))
       = activeStars pick_example"
proof -
  note near = click_nearest [OF pick_example_stars, of "pointer_at 403 304 (at_time 6 0 0 0)"]
  note far = click_nearest [OF pick_example_stars, of "pointer_at 0 0 (at_time 6 0 0 0)"]
  have r: "currentRenderTime pick_example = Some (at_time 0 0 0 0)"
    by (simp add: pick_example_fields)
  have 1: "click_time pick_example (pointer_at 403 304 (at_time 6 0 0 0)) = at_time 0 0 0 0"
    using near [THEN conjunct1] r by simp
  have 2: "\<exists>d. first_nearest pick_example (pointer_at 403 304 (at_time 6 0 0 0))
             (click_candidates pick_example (pointer_at 403 304 (at_time 6 0 0 0))
                [star_a, star_b])
             \<lparr>src = star_a, coords = Some \<lparr>px = 0, py = 0, pz = 0\<rparr>\<rparr> d \<and> d < 10"
    using near [THEN conjunct2, THEN conjunct2]
    unfolding pick_example_near option.case by blast
  have 3: "activeStars (click pick_example (pointer_at 0 0 (at_time 6 0 0 0)))
       = activeStars pick_example"
    using far [THEN conjunct2, THEN conjunct2]
    unfolding pick_example_far option.case by blast
  show ?thesis
    using pick_example_stars 1 2 3 pick_example_near [of "at_time 6 0 0 0"]
      pick_example_far [of "at_time 6 0 0 0"]
    by blast
qed

end
